theory Spec2Isabelle
  imports Complex_Main "HOL-Library.Word"
begin

unbundle bit_operations_syntax

section \<open>Mercury 236 power meter utility: data model\<close>

text \<open>
  The embedding follows \<^verbatim>\<open>mercury236.c\<close> function by function.
  \<^item> \<^verbatim>\<open>byte\<close> is an 8-bit word, \<^verbatim>\<open>UInt16\<close> a 16-bit word, and the \<^verbatim>\<open>int\<close>
    that holds packed values and command parameters a 32-bit word read with \<open>sint\<close>.
    Lengths returned by \<^verbatim>\<open>read\<close> stay far from any overflow and are plain \<open>int\<close>.
  \<^item> The structs are declared under \<^verbatim>\<open>#pragma pack(1)\<close>, so a struct laid over a byte
    buffer has its fields at consecutive offsets. A \<^verbatim>\<open>UInt16\<close> field is stored low byte
    first (the little-endian hosts the utility runs on, and the order section 4.1 of the
    specification names).
  \<^item> \<^verbatim>\<open>float\<close> is idealised as \<open>real\<close>: the conversion of the packed integer and the
    division by the factor are exact. Rounding to single precision, which depends on how
    the platform evaluates \<^verbatim>\<open>float\<close> expressions, is not modelled.
\<close>

type_synonym byte = "8 word"
type_synonym UInt16 = "16 word"
type_synonym cint = "32 word"

definition TIME_OUT :: nat where "TIME_OUT = 50"
definition CH_TIME_OUT :: nat where "CH_TIME_OUT = 2"
definition BSZ :: nat where "BSZ = 255"
definition PM_ADDRESS :: byte where "PM_ADDRESS = 0"

subsection \<open>Enumerations\<close>

datatype Direction = OUT | IN

datatype ExitCode = EXIT_OK | EXIT_FAIL

text \<open>
  \<^verbatim>\<open>ResultCode\<close> is returned as \<^verbatim>\<open>int\<close>: \<^verbatim>\<open>checkResult_1b\<close> returns
  \<^verbatim>\<open>res->result & 0x0F\<close>, which can be any value from 0 to 15, so the codes are
  integer constants rather than a datatype.
\<close>

definition OK :: int where "OK = 0"
definition ILLEGAL_CMD :: int where "ILLEGAL_CMD = 1"
definition INTERNAL_COUNTER_ERR :: int where "INTERNAL_COUNTER_ERR = 2"
definition PERMISSION_DENIED :: int where "PERMISSION_DENIED = 3"
definition CLOCK_ALREADY_CORRECTED :: int where "CLOCK_ALREADY_CORRECTED = 4"
definition CHANNEL_ISNT_OPEN :: int where "CHANNEL_ISNT_OPEN = 5"
definition WRONG_RESULT_SIZE :: int where "WRONG_RESULT_SIZE = 256"
definition WRONG_CRC :: int where "WRONG_CRC = 257"
definition CHECK_CHANNEL_TIME_OUT :: int where "CHECK_CHANNEL_TIME_OUT = 258"

definition PP_RESET :: cint where "PP_RESET = 0"
definition PP_YTD :: cint where "PP_YTD = 1"
definition PP_LAST_YEAR :: cint where "PP_LAST_YEAR = 2"
definition PP_MONTH :: cint where "PP_MONTH = 3"
definition PP_TODAY :: cint where "PP_TODAY = 4"
definition PP_YESTERDAY :: cint where "PP_YESTERDAY = 5"

subsection \<open>Command and result structures\<close>

record TestCmd =
  address :: byte
  command :: byte
  CRC :: UInt16

record InitCmd =
  address :: byte
  command :: byte
  accessLevel :: byte
  password :: "byte list"
  CRC :: UInt16

record ByeCmd =
  address :: byte
  command :: byte
  CRC :: UInt16

record ReadParamCmd =
  address :: byte
  command :: byte
  paramId :: byte
  BWRI :: byte
  CRC :: UInt16

record Result_1b =
  address :: byte
  result :: byte
  CRC :: UInt16

record Result_3b =
  address :: byte
  res :: "byte list"
  CRC :: UInt16

record Result_3x3b =
  address :: byte
  p1 :: "byte list"
  p2 :: "byte list"
  p3 :: "byte list"
  CRC :: UInt16

text \<open>The field \<^verbatim>\<open>sum\<close> is named \<open>sum_p\<close>: \<open>sum\<close> is a constant of HOL.\<close>

record Result_4x3b =
  address :: byte
  sum_p :: "byte list"
  p1 :: "byte list"
  p2 :: "byte list"
  p3 :: "byte list"
  CRC :: UInt16

record Result_4x4b =
  address :: byte
  sum_p :: "byte list"
  p1 :: "byte list"
  p2 :: "byte list"
  p3 :: "byte list"
  CRC :: UInt16

record P3V =
  p1 :: real
  p2 :: real
  p3 :: real

record P3VS =
  sum_p :: real
  p1 :: real
  p2 :: real
  p3 :: real

text \<open>\<^verbatim>\<open>sizeof\<close> of the packed structures.\<close>

definition sizeof_UInt16 :: int where "sizeof_UInt16 = 2"
definition sizeof_TestCmd :: int where "sizeof_TestCmd = 4"
definition sizeof_InitCmd :: int where "sizeof_InitCmd = 11"
definition sizeof_ByeCmd :: int where "sizeof_ByeCmd = 4"
definition sizeof_ReadParamCmd :: int where "sizeof_ReadParamCmd = 6"
definition sizeof_Result_1b :: int where "sizeof_Result_1b = 4"
definition sizeof_Result_3b :: int where "sizeof_Result_3b = 6"
definition sizeof_Result_3x3b :: int where "sizeof_Result_3x3b = 12"
definition sizeof_Result_4x3b :: int where "sizeof_Result_4x3b = 15"
definition sizeof_Result_4x4b :: int where "sizeof_Result_4x4b = 19"

subsection \<open>Memory images\<close>

text \<open>The two bytes a \<^verbatim>\<open>UInt16\<close> occupies, and the \<^verbatim>\<open>UInt16\<close> read at an offset.\<close>

definition UInt16_bytes :: "UInt16 \<Rightarrow> byte list" where
  "UInt16_bytes v = [ucast v, ucast (drop_bit 8 v)]"

definition UInt16_at :: "byte list \<Rightarrow> nat \<Rightarrow> UInt16" where
  "UInt16_at buf off = ucast (buf ! off) OR push_bit 8 (ucast (buf ! (off + 1)))"

definition bytes_at :: "byte list \<Rightarrow> nat \<Rightarrow> nat \<Rightarrow> byte list" where
  "bytes_at buf off n = take n (drop off buf)"

text \<open>\<^verbatim>\<open>(byte*)&cmd\<close>: the bytes of a command structure.\<close>

definition bytes_of_TestCmd :: "TestCmd \<Rightarrow> byte list" where
  "bytes_of_TestCmd c = [TestCmd.address c, TestCmd.command c] @ UInt16_bytes (TestCmd.CRC c)"

definition bytes_of_InitCmd :: "InitCmd \<Rightarrow> byte list" where
  "bytes_of_InitCmd c =
     [InitCmd.address c, InitCmd.command c, InitCmd.accessLevel c] @ take 6 (InitCmd.password c)
       @ UInt16_bytes (InitCmd.CRC c)"

definition bytes_of_ByeCmd :: "ByeCmd \<Rightarrow> byte list" where
  "bytes_of_ByeCmd c = [ByeCmd.address c, ByeCmd.command c] @ UInt16_bytes (ByeCmd.CRC c)"

definition bytes_of_ReadParamCmd :: "ReadParamCmd \<Rightarrow> byte list" where
  "bytes_of_ReadParamCmd c =
     [ReadParamCmd.address c, ReadParamCmd.command c, ReadParamCmd.paramId c, ReadParamCmd.BWRI c]
       @ UInt16_bytes (ReadParamCmd.CRC c)"

text \<open>\<^verbatim>\<open>(Result_1b*)buf\<close> and its siblings: a result structure laid over the buffer.\<close>

definition as_Result_1b :: "byte list \<Rightarrow> Result_1b" where
  "as_Result_1b buf =
     \<lparr>Result_1b.address = buf ! 0, Result_1b.result = buf ! 1, Result_1b.CRC = UInt16_at buf 2\<rparr>"

definition as_Result_3b :: "byte list \<Rightarrow> Result_3b" where
  "as_Result_3b buf =
     \<lparr>Result_3b.address = buf ! 0, Result_3b.res = bytes_at buf 1 3,
      Result_3b.CRC = UInt16_at buf 4\<rparr>"

definition as_Result_3x3b :: "byte list \<Rightarrow> Result_3x3b" where
  "as_Result_3x3b buf =
     \<lparr>Result_3x3b.address = buf ! 0, Result_3x3b.p1 = bytes_at buf 1 3,
      Result_3x3b.p2 = bytes_at buf 4 3, Result_3x3b.p3 = bytes_at buf 7 3,
      Result_3x3b.CRC = UInt16_at buf 10\<rparr>"

definition as_Result_4x3b :: "byte list \<Rightarrow> Result_4x3b" where
  "as_Result_4x3b buf =
     \<lparr>Result_4x3b.address = buf ! 0, Result_4x3b.sum_p = bytes_at buf 1 3,
      Result_4x3b.p1 = bytes_at buf 4 3, Result_4x3b.p2 = bytes_at buf 7 3,
      Result_4x3b.p3 = bytes_at buf 10 3, Result_4x3b.CRC = UInt16_at buf 13\<rparr>"

definition as_Result_4x4b :: "byte list \<Rightarrow> Result_4x4b" where
  "as_Result_4x4b buf =
     \<lparr>Result_4x4b.address = buf ! 0, Result_4x4b.sum_p = bytes_at buf 1 4,
      Result_4x4b.p1 = bytes_at buf 5 4, Result_4x4b.p2 = bytes_at buf 9 4,
      Result_4x4b.p3 = bytes_at buf 13 4, Result_4x4b.CRC = UInt16_at buf 17\<rparr>"

section \<open>Checksum\<close>

text \<open>
  \<^verbatim>\<open>ModRTU_CRC\<close>: the inner loop counts \<open>i\<close> down from 8 to 0, the outer loop runs
  \<open>pos\<close> from 0 while \<open>pos < len\<close>.
\<close>

fun crc_bits :: "nat \<Rightarrow> UInt16 \<Rightarrow> UInt16" where
  "crc_bits 0 crc = crc"
| "crc_bits (Suc i) crc =
     crc_bits i (if crc AND 0x0001 \<noteq> 0 then drop_bit 1 crc XOR 0xA001 else drop_bit 1 crc)"

function crc_bytes :: "byte list \<Rightarrow> int \<Rightarrow> int \<Rightarrow> UInt16 \<Rightarrow> UInt16" where
  "crc_bytes buf len pos crc =
     (if pos < len then crc_bytes buf len (pos + 1) (crc_bits 8 (crc XOR ucast (buf ! nat pos)))
      else crc)"
  by pat_completeness auto
termination
  by (relation "measure (\<lambda>(buf, len, pos, crc). nat (len - pos))") auto

declare crc_bytes.simps [simp del]

definition ModRTU_CRC :: "byte list \<Rightarrow> int \<Rightarrow> UInt16" where
  "ModRTU_CRC buf len = crc_bytes buf len 0 0xFFFF"

subsection \<open>The checksum as the specification words it\<close>

text \<open>
  Section 4.1: the accumulator starts at \<open>0xFFFF\<close>; each byte is XORed into the low byte
  of the accumulator (the high byte is kept); then, eight times, the accumulator is
  shifted right by one and XORed with \<open>0xA001\<close> when its low bit was set, and only
  shifted otherwise.
\<close>

definition spec_xor_low :: "UInt16 \<Rightarrow> byte \<Rightarrow> UInt16" where
  "spec_xor_low acc b = (acc AND 0xFF00) OR ucast ((ucast acc :: byte) XOR b)"

definition spec_shift :: "UInt16 \<Rightarrow> UInt16" where
  "spec_shift acc = (if bit acc 0 then drop_bit 1 acc XOR 0xA001 else drop_bit 1 acc)"

definition spec_checksum :: "byte list \<Rightarrow> UInt16" where
  "spec_checksum bytes = foldl (\<lambda>acc b. (spec_shift ^^ 8) (spec_xor_low acc b)) 0xFFFF bytes"

section \<open>Response validators\<close>

definition checkResult_1b :: "byte list \<Rightarrow> int \<Rightarrow> int" where
  "checkResult_1b buf len =
     (if len \<noteq> sizeof_Result_1b then WRONG_RESULT_SIZE
      else let res = as_Result_1b buf;
               crc = ModRTU_CRC buf (len - sizeof_UInt16)
           in if crc \<noteq> Result_1b.CRC res then WRONG_CRC
              else uint (Result_1b.result res AND 0x0F))"

definition checkResult_3b :: "byte list \<Rightarrow> int \<Rightarrow> int" where
  "checkResult_3b buf len =
     (if len \<noteq> sizeof_Result_3b then WRONG_RESULT_SIZE
      else let res = as_Result_3b buf;
               crc = ModRTU_CRC buf (len - sizeof_UInt16)
           in if crc \<noteq> Result_3b.CRC res then WRONG_CRC
              else OK)"

definition checkResult_3x3b :: "byte list \<Rightarrow> int \<Rightarrow> int" where
  "checkResult_3x3b buf len =
     (if len \<noteq> sizeof_Result_3x3b then WRONG_RESULT_SIZE
      else let res = as_Result_3x3b buf;
               crc = ModRTU_CRC buf (len - sizeof_UInt16)
           in if crc \<noteq> Result_3x3b.CRC res then WRONG_CRC
              else OK)"

definition checkResult_4x3b :: "byte list \<Rightarrow> int \<Rightarrow> int" where
  "checkResult_4x3b buf len =
     (if len \<noteq> sizeof_Result_4x3b then WRONG_RESULT_SIZE
      else let res = as_Result_4x3b buf;
               crc = ModRTU_CRC buf (len - sizeof_UInt16)
           in if crc \<noteq> Result_4x3b.CRC res then WRONG_CRC
              else OK)"

definition checkResult_4x4b :: "byte list \<Rightarrow> int \<Rightarrow> int" where
  "checkResult_4x4b buf len =
     (if len \<noteq> sizeof_Result_4x4b then WRONG_RESULT_SIZE
      else let res = as_Result_4x4b buf;
               crc = ModRTU_CRC buf (len - sizeof_UInt16)
           in if crc \<noteq> Result_4x4b.CRC res then WRONG_CRC
              else OK)"

section \<open>Value decoders\<close>

text \<open>
  The bytes are promoted to \<^verbatim>\<open>int\<close> before they are shifted, and the packed pattern
  is an \<^verbatim>\<open>int\<close>: a pattern with bit 31 set is a negative value (\<open>sint\<close>).
\<close>

definition B3F :: "byte list \<Rightarrow> real \<Rightarrow> real" where
  "B3F b factor =
     (let val :: cint = push_bit 16 (ucast (b ! 0)) OR push_bit 8 (ucast (b ! 2)) OR ucast (b ! 1)
      in real_of_int (sint val) / factor)"

definition B4F :: "byte list \<Rightarrow> real \<Rightarrow> real" where
  "B4F b factor =
     (let val :: cint = push_bit 24 (ucast (b ! 1)) OR push_bit 16 (ucast (b ! 0))
                          OR push_bit 8 (ucast (b ! 3)) OR ucast (b ! 2)
      in real_of_int (sint val) / factor)"

section \<open>Request frames\<close>

text \<open>
  Each command function initialises its structure with designated initialisers (the
  omitted \<^verbatim>\<open>CRC\<close> field is zero), computes the checksum over the structure without its
  last two bytes and stores it in \<^verbatim>\<open>CRC\<close>. The structures are named as in the source.
\<close>

definition testCmd :: TestCmd where
  "testCmd =
     (let cmd = \<lparr>TestCmd.address = PM_ADDRESS, TestCmd.command = 0x00, TestCmd.CRC = 0\<rparr>
      in cmd\<lparr>TestCmd.CRC := ModRTU_CRC (bytes_of_TestCmd cmd) (sizeof_TestCmd - sizeof_UInt16)\<rparr>)"

definition initCmd :: InitCmd where
  "initCmd =
     (let cmd = \<lparr>InitCmd.address = PM_ADDRESS, InitCmd.command = 0x01,
                 InitCmd.accessLevel = 0x01,
                 InitCmd.password = [0x01, 0x01, 0x01, 0x01, 0x01, 0x01], InitCmd.CRC = 0\<rparr>
      in cmd\<lparr>InitCmd.CRC := ModRTU_CRC (bytes_of_InitCmd cmd) (sizeof_InitCmd - sizeof_UInt16)\<rparr>)"

definition byeCmd :: ByeCmd where
  "byeCmd =
     (let cmd = \<lparr>ByeCmd.address = PM_ADDRESS, ByeCmd.command = 0x02, ByeCmd.CRC = 0\<rparr>
      in cmd\<lparr>ByeCmd.CRC := ModRTU_CRC (bytes_of_ByeCmd cmd) (sizeof_ByeCmd - sizeof_UInt16)\<rparr>)"

definition getUCmd :: ReadParamCmd where
  "getUCmd =
     (let cmd = \<lparr>ReadParamCmd.address = PM_ADDRESS, ReadParamCmd.command = 0x08,
                 ReadParamCmd.paramId = 0x16, ReadParamCmd.BWRI = 0x11, ReadParamCmd.CRC = 0\<rparr>
      in cmd\<lparr>ReadParamCmd.CRC :=
               ModRTU_CRC (bytes_of_ReadParamCmd cmd) (sizeof_ReadParamCmd - sizeof_UInt16)\<rparr>)"

definition getICmd :: ReadParamCmd where
  "getICmd =
     (let cmd = \<lparr>ReadParamCmd.address = PM_ADDRESS, ReadParamCmd.command = 0x08,
                 ReadParamCmd.paramId = 0x16, ReadParamCmd.BWRI = 0x21, ReadParamCmd.CRC = 0\<rparr>
      in cmd\<lparr>ReadParamCmd.CRC :=
               ModRTU_CRC (bytes_of_ReadParamCmd cmd) (sizeof_ReadParamCmd - sizeof_UInt16)\<rparr>)"

definition getCosCmd :: ReadParamCmd where
  "getCosCmd =
     (let cmd = \<lparr>ReadParamCmd.address = PM_ADDRESS, ReadParamCmd.command = 0x08,
                 ReadParamCmd.paramId = 0x16, ReadParamCmd.BWRI = 0x30, ReadParamCmd.CRC = 0\<rparr>
      in cmd\<lparr>ReadParamCmd.CRC :=
               ModRTU_CRC (bytes_of_ReadParamCmd cmd) (sizeof_ReadParamCmd - sizeof_UInt16)\<rparr>)"

definition getFCmd :: ReadParamCmd where
  "getFCmd =
     (let cmd = \<lparr>ReadParamCmd.address = PM_ADDRESS, ReadParamCmd.command = 0x08,
                 ReadParamCmd.paramId = 0x16, ReadParamCmd.BWRI = 0x40, ReadParamCmd.CRC = 0\<rparr>
      in cmd\<lparr>ReadParamCmd.CRC :=
               ModRTU_CRC (bytes_of_ReadParamCmd cmd) (sizeof_ReadParamCmd - sizeof_UInt16)\<rparr>)"

definition getACmd :: ReadParamCmd where
  "getACmd =
     (let cmd = \<lparr>ReadParamCmd.address = PM_ADDRESS, ReadParamCmd.command = 0x08,
                 ReadParamCmd.paramId = 0x16, ReadParamCmd.BWRI = 0x51, ReadParamCmd.CRC = 0\<rparr>
      in cmd\<lparr>ReadParamCmd.CRC :=
               ModRTU_CRC (bytes_of_ReadParamCmd cmd) (sizeof_ReadParamCmd - sizeof_UInt16)\<rparr>)"

definition getPCmd :: ReadParamCmd where
  "getPCmd =
     (let cmd = \<lparr>ReadParamCmd.address = PM_ADDRESS, ReadParamCmd.command = 0x08,
                 ReadParamCmd.paramId = 0x16, ReadParamCmd.BWRI = 0x00, ReadParamCmd.CRC = 0\<rparr>
      in cmd\<lparr>ReadParamCmd.CRC :=
               ModRTU_CRC (bytes_of_ReadParamCmd cmd) (sizeof_ReadParamCmd - sizeof_UInt16)\<rparr>)"

definition getSCmd :: ReadParamCmd where
  "getSCmd =
     (let cmd = \<lparr>ReadParamCmd.address = PM_ADDRESS, ReadParamCmd.command = 0x08,
                 ReadParamCmd.paramId = 0x16, ReadParamCmd.BWRI = 0x08, ReadParamCmd.CRC = 0\<rparr>
      in cmd\<lparr>ReadParamCmd.CRC :=
               ModRTU_CRC (bytes_of_ReadParamCmd cmd) (sizeof_ReadParamCmd - sizeof_UInt16)\<rparr>)"

text \<open>
  \<^verbatim>\<open>getW\<close>: \<^verbatim>\<open>(periodId << 4) | (month & 0xF)\<close> and \<^verbatim>\<open>tariffNo\<close> are \<^verbatim>\<open>int\<close>
  values stored into \<^verbatim>\<open>byte\<close> fields, which keeps their low eight bits.
\<close>

definition getWCmd :: "cint \<Rightarrow> cint \<Rightarrow> cint \<Rightarrow> ReadParamCmd" where
  "getWCmd periodId month tariffNo =
     (let cmd = \<lparr>ReadParamCmd.address = PM_ADDRESS, ReadParamCmd.command = 0x05,
                 ReadParamCmd.paramId = ucast (push_bit 4 periodId OR (month AND 0xF)),
                 ReadParamCmd.BWRI = ucast tariffNo, ReadParamCmd.CRC = 0\<rparr>
      in cmd\<lparr>ReadParamCmd.CRC :=
               ModRTU_CRC (bytes_of_ReadParamCmd cmd) (sizeof_ReadParamCmd - sizeof_UInt16)\<rparr>)"

section \<open>The serial line and the process\<close>

text \<open>
  What the program does to its environment is recorded as a trace of events, in program
  order. The meter's side of the line is a queue of outcomes, one for each wait on the
  descriptor in \<^verbatim>\<open>nb_read_impl\<close>: \<^verbatim>\<open>select\<close> fails, \<^verbatim>\<open>select\<close> times out,
  \<^verbatim>\<open>read\<close> delivers bytes, or \<^verbatim>\<open>read\<close> fails with \<open>-1\<close>. An exhausted queue is a
  meter that stays silent: every further wait times out. \<open>Usleep\<close> carries the argument
  of \<^verbatim>\<open>usleep\<close>, a number of microseconds; \<open>Select\<close> the timeout in seconds;
  \<open>Read\<close> the size asked for.
\<close>

datatype rx = SelectFailed | TimedOut | Received "byte list" | ReadFailed

datatype event =
    Dump Direction int "byte list"
  | Write "byte list"
  | Usleep nat
  | Select nat
  | Read nat
  | Print string
  | PrintVals string "real list"
  | Close
  | Tcsetattr
  | Exit ExitCode

record world =
  debugPrint :: bool
  rxq :: "rx list"
  trace :: "event list"

text \<open>
  A function either returns a value, or the process has exited inside it
  (\<^verbatim>\<open>exitFailure\<close> calls \<^verbatim>\<open>exit\<close>, which does not return).
\<close>

datatype 'a res = Exited world | Ret 'a world

text \<open>Sequencing: what follows a call runs only when the call returns.\<close>

definition bind_res :: "'a res \<Rightarrow> ('a \<Rightarrow> world \<Rightarrow> 'b res) \<Rightarrow> 'b res" where
  "bind_res m k = (case m of Exited w \<Rightarrow> Exited w | Ret a w \<Rightarrow> k a w)"

definition emit :: "event \<Rightarrow> world \<Rightarrow> world" where
  "emit e w = w\<lparr>trace := trace w @ [e]\<rparr>"

definition exitFailure :: "string \<Rightarrow> world \<Rightarrow> 'a res" where
  "exitFailure msg w = Exited (emit (Exit EXIT_FAIL) (emit (Print msg) w))"

definition printPackage :: "byte list \<Rightarrow> int \<Rightarrow> Direction \<Rightarrow> world \<Rightarrow> world" where
  "printPackage data sz isin w =
     (if debugPrint w then emit (Dump isin sz (take (nat sz) data)) w else w)"

text \<open>
  \<^verbatim>\<open>nb_read_impl\<close> returns the count and fills the caller's buffer. The model returns the
  buffer as the received bytes alone: the rest of the 255-byte array is not initialised,
  and no caller reads it (each validator checks the length first).
\<close>

definition nb_read_impl :: "world \<Rightarrow> (int \<times> byte list) res" where
  "nb_read_impl w =
     (let w = emit (Select CH_TIME_OUT) w
      in case rxq w of
           [] \<Rightarrow> Ret (0, []) w
         | r # rs \<Rightarrow>
             (let w = w\<lparr>rxq := rs\<rparr>
              in case r of
                   SelectFailed \<Rightarrow> exitFailure ''Select failed.'' w
                 | TimedOut \<Rightarrow> Ret (0, []) w
                 | Received bs \<Rightarrow> Ret (int (length (take BSZ bs)), take BSZ bs) (emit (Read BSZ) w)
                 | ReadFailed \<Rightarrow> Ret (- 1, []) (emit (Read BSZ) w)))"

definition nb_read :: "world \<Rightarrow> (int \<times> byte list) res" where
  "nb_read w =
     (case nb_read_impl w of
        Exited w \<Rightarrow> Exited w
      | Ret (r, buf) w \<Rightarrow>
          if r = 0 then exitFailure ''Communication channel timeout.'' w
          else Ret (r, buf) w)"

section \<open>Commands\<close>

text \<open>
  The descriptor argument \<^verbatim>\<open>ttyd\<close> is left out: the program opens one line, and the
  world stands for it. Each command prints its frame when debugging, writes it, sleeps,
  waits for the reply and validates it.
\<close>

definition checkChannel :: "world \<Rightarrow> int res" where
  "checkChannel w =
     (let w = printPackage (bytes_of_TestCmd testCmd) sizeof_TestCmd OUT w;
          w = emit (Write (bytes_of_TestCmd testCmd)) w;
          w = emit (Usleep TIME_OUT) w
      in case nb_read_impl w of
           Exited w \<Rightarrow> Exited w
         | Ret (len, buf) w \<Rightarrow>
             if len = 0 then Ret CHECK_CHANNEL_TIME_OUT w
             else let w = printPackage buf len IN w
                  in Ret (checkResult_1b buf len) w)"

definition initConnection :: "world \<Rightarrow> int res" where
  "initConnection w =
     (let w = printPackage (bytes_of_InitCmd initCmd) sizeof_InitCmd OUT w;
          w = emit (Write (bytes_of_InitCmd initCmd)) w;
          w = emit (Usleep TIME_OUT) w
      in case nb_read w of
           Exited w \<Rightarrow> Exited w
         | Ret (len, buf) w \<Rightarrow>
             let w = printPackage buf len IN w
             in Ret (checkResult_1b buf len) w)"

definition closeConnection :: "world \<Rightarrow> int res" where
  "closeConnection w =
     (let w = printPackage (bytes_of_ByeCmd byeCmd) sizeof_ByeCmd OUT w;
          w = emit (Write (bytes_of_ByeCmd byeCmd)) w;
          w = emit (Usleep TIME_OUT) w
      in case nb_read w of
           Exited w \<Rightarrow> Exited w
         | Ret (len, buf) w \<Rightarrow>
             let w = printPackage buf len IN w
             in Ret (checkResult_1b buf len) w)"

text \<open>
  The query functions take the structure their pointer argument points to and return it
  with the result code: what the caller finds in \<^verbatim>\<open>*U\<close> after the call.
\<close>

definition getU :: "P3V \<Rightarrow> world \<Rightarrow> (int \<times> P3V) res" where
  "getU U w =
     (let w = printPackage (bytes_of_ReadParamCmd getUCmd) sizeof_ReadParamCmd OUT w;
          w = emit (Write (bytes_of_ReadParamCmd getUCmd)) w;
          w = emit (Usleep TIME_OUT) w
      in case nb_read w of
           Exited w \<Rightarrow> Exited w
         | Ret (len, buf) w \<Rightarrow>
             let w = printPackage buf len IN w;
                 checkResult = checkResult_3x3b buf len
             in if OK = checkResult then
                  let res = as_Result_3x3b buf;
                      U = U\<lparr>P3V.p1 := B3F (Result_3x3b.p1 res) 100.0\<rparr>;
                      U = U\<lparr>P3V.p2 := B3F (Result_3x3b.p2 res) 100.0\<rparr>;
                      U = U\<lparr>P3V.p3 := B3F (Result_3x3b.p3 res) 100.0\<rparr>
                  in Ret (checkResult, U) w
                else Ret (checkResult, U) w)"

definition getI :: "P3V \<Rightarrow> world \<Rightarrow> (int \<times> P3V) res" where
  "getI I w =
     (let w = printPackage (bytes_of_ReadParamCmd getICmd) sizeof_ReadParamCmd OUT w;
          w = emit (Write (bytes_of_ReadParamCmd getICmd)) w;
          w = emit (Usleep TIME_OUT) w
      in case nb_read w of
           Exited w \<Rightarrow> Exited w
         | Ret (len, buf) w \<Rightarrow>
             let w = printPackage buf len IN w;
                 checkResult = checkResult_3x3b buf len
             in if OK = checkResult then
                  let res = as_Result_3x3b buf;
                      I = I\<lparr>P3V.p1 := B3F (Result_3x3b.p1 res) 1000.0\<rparr>;
                      I = I\<lparr>P3V.p2 := B3F (Result_3x3b.p2 res) 1000.0\<rparr>;
                      I = I\<lparr>P3V.p3 := B3F (Result_3x3b.p3 res) 1000.0\<rparr>
                  in Ret (checkResult, I) w
                else Ret (checkResult, I) w)"

definition getCosF :: "P3VS \<Rightarrow> world \<Rightarrow> (int \<times> P3VS) res" where
  "getCosF C w =
     (let w = printPackage (bytes_of_ReadParamCmd getCosCmd) sizeof_ReadParamCmd OUT w;
          w = emit (Write (bytes_of_ReadParamCmd getCosCmd)) w;
          w = emit (Usleep TIME_OUT) w
      in case nb_read w of
           Exited w \<Rightarrow> Exited w
         | Ret (len, buf) w \<Rightarrow>
             let w = printPackage buf len IN w;
                 checkResult = checkResult_4x3b buf len
             in if OK = checkResult then
                  let res = as_Result_4x3b buf;
                      C = C\<lparr>P3VS.p1 := B3F (Result_4x3b.p1 res) 1000.0\<rparr>;
                      C = C\<lparr>P3VS.p2 := B3F (Result_4x3b.p2 res) 1000.0\<rparr>;
                      C = C\<lparr>P3VS.p3 := B3F (Result_4x3b.p3 res) 1000.0\<rparr>;
                      C = C\<lparr>P3VS.sum_p := B3F (Result_4x3b.sum_p res) 1000.0\<rparr>
                  in Ret (checkResult, C) w
                else Ret (checkResult, C) w)"

definition getF :: "real \<Rightarrow> world \<Rightarrow> (int \<times> real) res" where
  "getF f w =
     (let w = printPackage (bytes_of_ReadParamCmd getFCmd) sizeof_ReadParamCmd OUT w;
          w = emit (Write (bytes_of_ReadParamCmd getFCmd)) w;
          w = emit (Usleep TIME_OUT) w
      in case nb_read w of
           Exited w \<Rightarrow> Exited w
         | Ret (len, buf) w \<Rightarrow>
             let w = printPackage buf len IN w;
                 checkResult = checkResult_3b buf len
             in if OK = checkResult then
                  let res = as_Result_3b buf;
                      f = B3F (Result_3b.res res) 100.0
                  in Ret (checkResult, f) w
                else Ret (checkResult, f) w)"

definition getA :: "P3V \<Rightarrow> world \<Rightarrow> (int \<times> P3V) res" where
  "getA A w =
     (let w = printPackage (bytes_of_ReadParamCmd getACmd) sizeof_ReadParamCmd OUT w;
          w = emit (Write (bytes_of_ReadParamCmd getACmd)) w;
          w = emit (Usleep TIME_OUT) w
      in case nb_read w of
           Exited w \<Rightarrow> Exited w
         | Ret (len, buf) w \<Rightarrow>
             let w = printPackage buf len IN w;
                 checkResult = checkResult_3x3b buf len
             in if OK = checkResult then
                  let res = as_Result_3x3b buf;
                      A = A\<lparr>P3V.p1 := B3F (Result_3x3b.p1 res) 100.0\<rparr>;
                      A = A\<lparr>P3V.p2 := B3F (Result_3x3b.p2 res) 100.0\<rparr>;
                      A = A\<lparr>P3V.p3 := B3F (Result_3x3b.p3 res) 100.0\<rparr>
                  in Ret (checkResult, A) w
                else Ret (checkResult, A) w)"

definition getP :: "P3VS \<Rightarrow> world \<Rightarrow> (int \<times> P3VS) res" where
  "getP P w =
     (let w = printPackage (bytes_of_ReadParamCmd getPCmd) sizeof_ReadParamCmd OUT w;
          w = emit (Write (bytes_of_ReadParamCmd getPCmd)) w;
          w = emit (Usleep TIME_OUT) w
      in case nb_read w of
           Exited w \<Rightarrow> Exited w
         | Ret (len, buf) w \<Rightarrow>
             let w = printPackage buf len IN w;
                 checkResult = checkResult_4x3b buf len
             in if OK = checkResult then
                  let res = as_Result_4x3b buf;
                      P = P\<lparr>P3VS.p1 := B3F (Result_4x3b.p1 res) 1000.0\<rparr>;
                      P = P\<lparr>P3VS.p2 := B3F (Result_4x3b.p2 res) 1000.0\<rparr>;
                      P = P\<lparr>P3VS.p3 := B3F (Result_4x3b.p3 res) 1000.0\<rparr>;
                      P = P\<lparr>P3VS.sum_p := B3F (Result_4x3b.sum_p res) 1000.0\<rparr>
                  in Ret (checkResult, P) w
                else Ret (checkResult, P) w)"

definition getS :: "P3VS \<Rightarrow> world \<Rightarrow> (int \<times> P3VS) res" where
  "getS S w =
     (let w = printPackage (bytes_of_ReadParamCmd getSCmd) sizeof_ReadParamCmd OUT w;
          w = emit (Write (bytes_of_ReadParamCmd getSCmd)) w;
          w = emit (Usleep TIME_OUT) w
      in case nb_read w of
           Exited w \<Rightarrow> Exited w
         | Ret (len, buf) w \<Rightarrow>
             let w = printPackage buf len IN w;
                 checkResult = checkResult_4x3b buf len
             in if OK = checkResult then
                  let res = as_Result_4x3b buf;
                      S = S\<lparr>P3VS.p1 := B3F (Result_4x3b.p1 res) 1000.0\<rparr>;
                      S = S\<lparr>P3VS.p2 := B3F (Result_4x3b.p2 res) 1000.0\<rparr>;
                      S = S\<lparr>P3VS.p3 := B3F (Result_4x3b.p3 res) 1000.0\<rparr>;
                      S = S\<lparr>P3VS.sum_p := B3F (Result_4x3b.sum_p res) 1000.0\<rparr>
                  in Ret (checkResult, S) w
                else Ret (checkResult, S) w)"

definition getW :: "P3VS \<Rightarrow> cint \<Rightarrow> cint \<Rightarrow> cint \<Rightarrow> world \<Rightarrow> (int \<times> P3VS) res" where
  "getW W periodId month tariffNo w =
     (let cmd = getWCmd periodId month tariffNo;
          w = printPackage (bytes_of_ReadParamCmd cmd) sizeof_ReadParamCmd OUT w;
          w = emit (Write (bytes_of_ReadParamCmd cmd)) w;
          w = emit (Usleep TIME_OUT) w
      in case nb_read w of
           Exited w \<Rightarrow> Exited w
         | Ret (len, buf) w \<Rightarrow>
             let w = printPackage buf len IN w;
                 checkResult = checkResult_4x4b buf len
             in if OK = checkResult then
                  let res = as_Result_4x4b buf;
                      W = W\<lparr>P3VS.p1 := B4F (Result_4x4b.p1 res) 1000.0\<rparr>;
                      W = W\<lparr>P3VS.p2 := B4F (Result_4x4b.p2 res) 1000.0\<rparr>;
                      W = W\<lparr>P3VS.p3 := B4F (Result_4x4b.p3 res) 1000.0\<rparr>;
                      W = W\<lparr>P3VS.sum_p := B4F (Result_4x4b.sum_p res) 1000.0\<rparr>
                  in Ret (checkResult, W) w
                else Ret (checkResult, W) w)"

section \<open>The session: \<^verbatim>\<open>main\<close>\<close>

text \<open>
  The local variables of \<^verbatim>\<open>main\<close> that hold the measurements. They are declared without
  initialisers, so \<^verbatim>\<open>main\<close> starts from whatever values \<open>l\<close> they happen to hold.
  (The fields carry the prefix \<open>loc_\<close>: single capitals are wanted as variable names.)
\<close>

record locals =
  loc_U :: P3V
  loc_I :: P3V
  loc_A :: P3V
  loc_C :: P3VS
  loc_P :: P3VS
  loc_S :: P3VS
  loc_PR :: P3VS
  loc_PY :: P3VS
  loc_PT :: P3VS
  loc_f :: real

text \<open>The branch \<^verbatim>\<open>case OK:\<close> of the \<^verbatim>\<open>switch\<close>, up to its \<^verbatim>\<open>break\<close>.\<close>

definition main_case_OK :: "locals \<Rightarrow> world \<Rightarrow> locals res" where
  "main_case_OK l w =
     (bind_res (checkChannel w) (\<lambda>r w.
      if OK \<noteq> r then exitFailure ''Power meter communication channel test failed.'' w else
      bind_res (initConnection w) (\<lambda>r w.
      if OK \<noteq> r then exitFailure ''Power meter connection initialisation error.'' w else
      bind_res (getU (loc_U l) w) (\<lambda>(r, U) w.
      let l = l\<lparr>loc_U := U\<rparr> in
      if OK \<noteq> r then exitFailure ''Cannot collect voltage data.'' w else
      bind_res (getI (loc_I l) w) (\<lambda>(r, I) w.
      let l = l\<lparr>loc_I := I\<rparr> in
      if OK \<noteq> r then exitFailure ''Cannot collect current data.'' w else
      bind_res (getCosF (loc_C l) w) (\<lambda>(r, C) w.
      let l = l\<lparr>loc_C := C\<rparr> in
      if OK \<noteq> r then exitFailure ''Cannot collect cos(f) data.'' w else
      bind_res (getF (loc_f l) w) (\<lambda>(r, f) w.
      let l = l\<lparr>loc_f := f\<rparr> in
      if OK \<noteq> r then exitFailure ''Cannot collect grid frequency data.'' w else
      bind_res (getA (loc_A l) w) (\<lambda>(r, A) w.
      let l = l\<lparr>loc_A := A\<rparr> in
      if OK \<noteq> r then exitFailure ''Cannot collect phase angles data.'' w else
      bind_res (getP (loc_P l) w) (\<lambda>(r, P) w.
      let l = l\<lparr>loc_P := P\<rparr> in
      if OK \<noteq> r then exitFailure ''Cannot collect active power consumption data.'' w else
      bind_res (getS (loc_S l) w) (\<lambda>(r, S) w.
      let l = l\<lparr>loc_S := S\<rparr> in
      if OK \<noteq> r then exitFailure ''Cannot collect reactive power consumption data.'' w else
      bind_res (getW (loc_PR l) PP_RESET 0 0 w) (\<lambda>(r, PR) w.
      let l = l\<lparr>loc_PR := PR\<rparr> in
      if OK \<noteq> r then exitFailure ''Cannot collect power counters data.'' w else
      bind_res (getW (loc_PY l) PP_YESTERDAY 0 0 w) (\<lambda>(r, PY) w.
      let l = l\<lparr>loc_PY := PY\<rparr> in
      if OK \<noteq> r then exitFailure ''Cannot collect power counters data.'' w else
      bind_res (getW (loc_PT l) PP_TODAY 0 0 w) (\<lambda>(r, PT) w.
      let l = l\<lparr>loc_PT := PT\<rparr> in
      if OK \<noteq> r then exitFailure ''Cannot collect power counters data.'' w else
      bind_res (closeConnection w) (\<lambda>r w.
      if OK \<noteq> r then exitFailure ''Power meter connection closing error.'' w else
      Ret l w))))))))))))))"

text \<open>The \<^verbatim>\<open>switch\<close> on the result of the first \<^verbatim>\<open>checkChannel\<close>.\<close>

definition main_switch :: "locals \<Rightarrow> world \<Rightarrow> locals res" where
  "main_switch l w =
     (case checkChannel w of Exited w \<Rightarrow> Exited w | Ret r w \<Rightarrow>
      if r = OK then main_case_OK l w
      else if r = CHECK_CHANNEL_TIME_OUT then
        let l = l\<lparr>loc_U := (loc_U l)\<lparr>P3V.p1 := 0.0, P3V.p2 := 0.0, P3V.p3 := 0.0\<rparr>\<rparr>;
            l = l\<lparr>loc_I := (loc_I l)\<lparr>P3V.p1 := 0.0, P3V.p2 := 0.0, P3V.p3 := 0.0\<rparr>\<rparr>;
            l = l\<lparr>loc_P := (loc_P l)\<lparr>P3VS.p1 := 0.0, P3VS.p2 := 0.0, P3VS.p3 := 0.0,
                                        P3VS.sum_p := 0.0\<rparr>\<rparr>;
            l = l\<lparr>loc_S := (loc_S l)\<lparr>P3VS.p1 := 0.0, P3VS.p2 := 0.0, P3VS.p3 := 0.0,
                                        P3VS.sum_p := 0.0\<rparr>\<rparr>
        in Ret l w
      else exitFailure ''Check channel failure.'' w)"

text \<open>
  \<^verbatim>\<open>main\<close> from the declaration of the measurement variables on (the option parsing and
  the set-up of the serial port come before): the \<^verbatim>\<open>switch\<close>, then \<^verbatim>\<open>close\<close>,
  \<^verbatim>\<open>tcsetattr\<close>, the ten result lines and \<^verbatim>\<open>exit(EXIT_OK)\<close>. The result is the world
  at the moment the process exits. A result line is recorded with its label and the
  values passed to \<^verbatim>\<open>printf\<close>.
\<close>

definition main :: "locals \<Rightarrow> world \<Rightarrow> world" where
  "main l w =
     (case main_switch l w of
        Exited w \<Rightarrow> w
      | Ret l w \<Rightarrow>
          let w = emit Close w;
              w = emit Tcsetattr w;
              w = emit (PrintVals ''U (V):''
                    [P3V.p1 (loc_U l), P3V.p2 (loc_U l), P3V.p3 (loc_U l)]) w;
              w = emit (PrintVals ''I (A):''
                    [P3V.p1 (loc_I l), P3V.p2 (loc_I l), P3V.p3 (loc_I l)]) w;
              w = emit (PrintVals ''Cos(f):''
                    [P3VS.p1 (loc_C l), P3VS.p2 (loc_C l), P3VS.p3 (loc_C l),
                     P3VS.sum_p (loc_C l)]) w;
              w = emit (PrintVals ''F (Hz):'' [loc_f l]) w;
              w = emit (PrintVals ''A (deg):''
                    [P3V.p1 (loc_A l), P3V.p2 (loc_A l), P3V.p3 (loc_A l)]) w;
              w = emit (PrintVals ''P (W):''
                    [P3VS.p1 (loc_P l), P3VS.p2 (loc_P l), P3VS.p3 (loc_P l),
                     P3VS.sum_p (loc_P l)]) w;
              w = emit (PrintVals ''S (VA):''
                    [P3VS.p1 (loc_S l), P3VS.p2 (loc_S l), P3VS.p3 (loc_S l),
                     P3VS.sum_p (loc_S l)]) w;
              w = emit (PrintVals ''PR (KW):''
                    [P3VS.p1 (loc_PR l), P3VS.p2 (loc_PR l), P3VS.p3 (loc_PR l),
                     P3VS.sum_p (loc_PR l)]) w;
              w = emit (PrintVals ''PY (KW):''
                    [P3VS.p1 (loc_PY l), P3VS.p2 (loc_PY l), P3VS.p3 (loc_PY l),
                     P3VS.sum_p (loc_PY l)]) w;
              w = emit (PrintVals ''PT (KW):''
                    [P3VS.p1 (loc_PT l), P3VS.p2 (loc_PT l), P3VS.p3 (loc_PT l),
                     P3VS.sum_p (loc_PT l)]) w
          in emit (Exit EXIT_OK) w)"

subsection \<open>Observations on a trace\<close>

text \<open>The frames written to the line, in order.\<close>

fun sent :: "event list \<Rightarrow> byte list list" where
  "sent [] = []"
| "sent (Write f # es) = f # sent es"
| "sent (e # es) = sent es"

text \<open>The values of the result lines, in order.\<close>

fun printed :: "event list \<Rightarrow> real list" where
  "printed [] = []"
| "printed (PrintVals label vs # es) = vs @ printed es"
| "printed (e # es) = printed es"

text \<open>The trace without the debug dumps of \<^verbatim>\<open>printPackage\<close>.\<close>

fun undumped :: "event list \<Rightarrow> event list" where
  "undumped [] = []"
| "undumped (Dump d n bs # es) = undumped es"
| "undumped (e # es) = e # undumped es"

text \<open>
  The frames of a run in which every exchange succeeds, in the order \<^verbatim>\<open>main\<close> sends
  them, and the sequence the specification lists for the full success path.
\<close>

definition issued_sequence :: "byte list list" where
  "issued_sequence =
     [bytes_of_TestCmd testCmd, bytes_of_TestCmd testCmd, bytes_of_InitCmd initCmd,
      bytes_of_ReadParamCmd getUCmd, bytes_of_ReadParamCmd getICmd,
      bytes_of_ReadParamCmd getCosCmd, bytes_of_ReadParamCmd getFCmd,
      bytes_of_ReadParamCmd getACmd, bytes_of_ReadParamCmd getPCmd,
      bytes_of_ReadParamCmd getSCmd,
      bytes_of_ReadParamCmd (getWCmd PP_RESET 0 0),
      bytes_of_ReadParamCmd (getWCmd PP_YESTERDAY 0 0),
      bytes_of_ReadParamCmd (getWCmd PP_TODAY 0 0),
      bytes_of_ByeCmd byeCmd]"

definition spec_sequence :: "byte list list" where
  "spec_sequence =
     [bytes_of_TestCmd testCmd, bytes_of_InitCmd initCmd,
      bytes_of_ReadParamCmd getUCmd, bytes_of_ReadParamCmd getICmd,
      bytes_of_ReadParamCmd getCosCmd, bytes_of_ReadParamCmd getFCmd,
      bytes_of_ReadParamCmd getACmd, bytes_of_ReadParamCmd getPCmd,
      bytes_of_ReadParamCmd getSCmd,
      bytes_of_ReadParamCmd (getWCmd PP_RESET 0 0),
      bytes_of_ReadParamCmd (getWCmd PP_YESTERDAY 0 0),
      bytes_of_ReadParamCmd (getWCmd PP_TODAY 0 0),
      bytes_of_ByeCmd byeCmd]"

text \<open>
  A frame carries its own checksum when the checksum computed over all but its last two
  bytes is the \<^verbatim>\<open>UInt16\<close> those two bytes hold: the test every validator applies.
\<close>

definition crc_consistent :: "byte list \<Rightarrow> bool" where
  "crc_consistent f \<longleftrightarrow>
     2 \<le> length f \<and> ModRTU_CRC f (int (length f) - 2) = UInt16_at f (length f - 2)"

subsection \<open>Concrete runs\<close>

text \<open>
  The world in which \<^verbatim>\<open>main\<close> starts: no event yet, the debug flag as given on the
  command line, and the outcomes the line will deliver. \<open>stale\<close> is a content of the
  measurement variables before the \<^verbatim>\<open>switch\<close>: every field holds 7.
\<close>

definition fresh_world :: "bool \<Rightarrow> rx list \<Rightarrow> world" where
  "fresh_world dbg q = \<lparr>debugPrint = dbg, rxq = q, trace = []\<rparr>"

definition stale3 :: P3V where
  "stale3 = \<lparr>P3V.p1 = 7, P3V.p2 = 7, P3V.p3 = 7\<rparr>"

definition stale4 :: P3VS where
  "stale4 = \<lparr>P3VS.sum_p = 7, P3VS.p1 = 7, P3VS.p2 = 7, P3VS.p3 = 7\<rparr>"

definition stale :: locals where
  "stale = \<lparr>loc_U = stale3, loc_I = stale3, loc_A = stale3, loc_C = stale4, loc_P = stale4,
            loc_S = stale4, loc_PR = stale4, loc_PY = stale4, loc_PT = stale4, loc_f = 7\<rparr>"

text \<open>
  Replies with valid checksums, one for each result structure, one reply with a wrong
  checksum, and three reply queues: one in which every exchange of a session succeeds, one
  in which the reply to the query of the current is corrupt, and one in which the meter
  answers the initialisation with the status \<open>ILLEGAL_CMD\<close>.
\<close>

definition reply_1b_OK :: "byte list" where
  "reply_1b_OK = [0x00, 0x00, 0x01, 0xB0]"

definition reply_1b_ILLEGAL_CMD :: "byte list" where
  "reply_1b_ILLEGAL_CMD = [0x00, 0x01, 0xC0, 0x70]"

definition reply_3b :: "byte list" where
  "reply_3b = [0x00, 0x01, 0x02, 0x03, 0x10, 0x85]"

definition reply_3x3b :: "byte list" where
  "reply_3x3b = [0x00, 0x01, 0x02, 0x03, 0x01, 0x02, 0x03, 0x01, 0x02, 0x03, 0xA7, 0xBA]"

definition reply_4x3b :: "byte list" where
  "reply_4x3b =
     [0x00, 0x01, 0x02, 0x03, 0x01, 0x02, 0x03, 0x01, 0x02, 0x03, 0x01, 0x02, 0x03, 0xD2, 0x22]"

definition reply_4x4b :: "byte list" where
  "reply_4x4b =
     [0x00, 0x01, 0x02, 0x03, 0x04, 0x01, 0x02, 0x03, 0x04, 0x01, 0x02, 0x03, 0x04,
      0x01, 0x02, 0x03, 0x04, 0xB8, 0x22]"

definition full_success_replies :: "rx list" where
  "full_success_replies =
     [Received reply_1b_OK, Received reply_1b_OK, Received reply_1b_OK,
      Received reply_3x3b, Received reply_3x3b, Received reply_4x3b, Received reply_3b,
      Received reply_3x3b, Received reply_4x3b, Received reply_4x3b,
      Received reply_4x4b, Received reply_4x4b, Received reply_4x4b,
      Received reply_1b_OK]"

definition reply_3x3b_corrupt :: "byte list" where
  "reply_3x3b_corrupt = [0x00, 0x01, 0x02, 0x03, 0x01, 0x02, 0x03, 0x01, 0x02, 0x03, 0xA7, 0xBB]"

definition current_corrupt_replies :: "rx list" where
  "current_corrupt_replies =
     [Received reply_1b_OK, Received reply_1b_OK, Received reply_1b_OK,
      Received reply_3x3b, Received reply_3x3b_corrupt]"


subsection \<open>Replies and the progress of a session\<close>

text \<open>The world in which a call has ended, whether it returned or the process exited.\<close>

fun world_of :: "'a res \<Rightarrow> world" where
  "world_of (Exited w) = w"
| "world_of (Ret a w) = w"

text \<open>
  An outcome of the line makes an exchange succeed when bytes arrive and the validator of
  the exchange accepts what \<^verbatim>\<open>read\<close> stored (at most \<open>BSZ\<close> bytes). \<open>validators\<close>
  lists the validator of each exchange of a session, in the order of \<open>issued_sequence\<close>,
  and \<open>ok_replies\<close> counts the outcomes at the head of the queue that make their
  exchange succeed.
\<close>

definition reply_ok :: "(byte list \<Rightarrow> int \<Rightarrow> int) \<Rightarrow> rx \<Rightarrow> bool" where
  "reply_ok check r =
     (case r of
        Received bs \<Rightarrow> check (take BSZ bs) (int (length (take BSZ bs))) = OK
      | _ \<Rightarrow> False)"

fun ok_replies :: "(byte list \<Rightarrow> int \<Rightarrow> int) list \<Rightarrow> rx list \<Rightarrow> nat" where
  "ok_replies (c # cs) (r # rs) = (if reply_ok c r then Suc (ok_replies cs rs) else 0)"
| "ok_replies cs rs = 0"

definition validators :: "(byte list \<Rightarrow> int \<Rightarrow> int) list" where
  "validators =
     [checkResult_1b, checkResult_1b, checkResult_1b, checkResult_3x3b, checkResult_3x3b,
      checkResult_4x3b, checkResult_3b, checkResult_3x3b, checkResult_4x3b, checkResult_4x3b,
      checkResult_4x4b, checkResult_4x4b, checkResult_4x4b, checkResult_1b]"

text \<open>
  Two specifications used to reason about \<^verbatim>\<open>main\<close> one call at a time. \<open>step c f F code\<close>:
  the command \<open>F\<close> always writes exactly the frame \<open>f\<close>, and it returns the code \<open>OK\<close>
  exactly when the outcome at the head of the queue passes the validator \<open>c\<close>, which it
  then consumes. \<open>follows cs fs w m\<close>: the part of the session that ends in \<open>m\<close>, started
  in \<open>w\<close>, has written the frames \<open>fs\<close> up to and including the first exchange that failed.
\<close>

definition step ::
  "(byte list \<Rightarrow> int \<Rightarrow> int) \<Rightarrow> byte list \<Rightarrow> (world \<Rightarrow> 'a res) \<Rightarrow> ('a \<Rightarrow> int) \<Rightarrow> bool" where
  "step c f F code \<longleftrightarrow>
     (\<forall>w. sent (trace (world_of (F w))) = sent (trace w) @ [f] \<and>
          (\<forall>a w'. F w = Ret a w' \<and> code a = OK \<longrightarrow>
             (\<exists>r rs. rxq w = r # rs \<and> reply_ok c r \<and> rxq w' = rs)) \<and>
          ((\<exists>r rs. rxq w = r # rs \<and> reply_ok c r) \<longrightarrow> (\<exists>a w'. F w = Ret a w' \<and> code a = OK)))"

definition follows ::
  "(byte list \<Rightarrow> int \<Rightarrow> int) list \<Rightarrow> byte list list \<Rightarrow> world \<Rightarrow> 'a res \<Rightarrow> bool" where
  "follows cs fs w m \<longleftrightarrow>
     sent (trace (world_of m)) = sent (trace w) @ take (Suc (ok_replies cs (rxq w))) fs"

text \<open>
  The process has exited with a failure when \<open>Exit EXIT_FAIL\<close> is the last event.
  \<open>ends cs w m\<close>: the part of the session with the validators \<open>cs\<close> returns when all
  its replies are accepted, and otherwise exits with a failure.
\<close>

definition exits_failed :: "world \<Rightarrow> bool" where
  "exits_failed w \<longleftrightarrow> trace w \<noteq> [] \<and> last (trace w) = Exit EXIT_FAIL"

definition ends :: "(byte list \<Rightarrow> int \<Rightarrow> int) list \<Rightarrow> world \<Rightarrow> 'a res \<Rightarrow> bool" where
  "ends cs w m \<longleftrightarrow>
     (case m of
        Exited w' \<Rightarrow> exits_failed w' \<and> ok_replies cs (rxq w) < length cs
      | Ret a w' \<Rightarrow> length cs \<le> ok_replies cs (rxq w))"

text \<open>
  A trace is paced with delay \<open>d\<close> when every \<open>Write\<close> in it is directly followed by
  \<open>Usleep d\<close> and then by the wait for the reply. \<open>paces w m\<close>: the events added between
  \<open>w\<close> and the end of \<open>m\<close> are paced with the delay the program passes to \<^verbatim>\<open>usleep\<close>.
\<close>

fun paced :: "nat \<Rightarrow> event list \<Rightarrow> bool" where
  "paced d [] = True"
| "paced d (e # es) =
     ((case e of
         Write f \<Rightarrow> (case es of Usleep n # Select t # es' \<Rightarrow> n = d | _ \<Rightarrow> False)
       | _ \<Rightarrow> True) \<and> paced d es)"

definition paces :: "world \<Rightarrow> 'a res \<Rightarrow> bool" where
  "paces w m \<longleftrightarrow>
     (\<exists>new. undumped (trace (world_of m)) = undumped (trace w) @ new \<and> paced TIME_OUT new)"

section \<open>Checksum: refinement of the specification\<close>

lemma high_byte_mask: "(0xFF00 :: UInt16) = push_bit 8 (mask 8)"
  by (simp add: push_bit_eq_mult mask_eq_exp_minus_1)

lemma spec_xor_low_eq: "spec_xor_low acc b = acc XOR ucast b"
  unfolding spec_xor_low_def high_byte_mask
  by (rule bit_word_eqI) (auto simp add: bit_simps dest: bit_imp_le_length)

lemma low_bit_test: "(crc AND 0x0001 \<noteq> 0) = bit (crc :: UInt16) 0"
  by (simp add: and_one_eq mod_2_eq_odd bit_0)

lemma crc_bits_eq: "crc_bits n crc = (spec_shift ^^ n) crc"
  by (induction n arbitrary: crc) (simp_all add: funpow_swap1 spec_shift_def low_bit_test)

lemma crc_bytes_eq:
  "0 \<le> pos \<Longrightarrow> pos \<le> len \<Longrightarrow> len \<le> int (length buf) \<Longrightarrow>
   crc_bytes buf len pos crc =
     foldl (\<lambda>acc b. (spec_shift ^^ 8) (spec_xor_low acc b)) crc
       (drop (nat pos) (take (nat len) buf))"
proof (induction buf len pos crc rule: crc_bytes.induct)
  case (1 buf len pos crc)
  show ?case
  proof (cases "pos < len")
    case True
    have lt: "nat pos < length (take (nat len) buf)"
      using True 1(2,4) by simp
    have d: "drop (nat pos) (take (nat len) buf)
               = buf ! nat pos # drop (nat (pos + 1)) (take (nat len) buf)"
      using Cons_nth_drop_Suc [OF lt] True 1(2) by (simp add: nat_add_distrib)
    show ?thesis
      using True 1 by (subst crc_bytes.simps) (simp add: d crc_bits_eq spec_xor_low_eq)
  next
    case False
    then show ?thesis
      using 1(2,3,4) by (subst crc_bytes.simps) simp
  qed
qed

lemma ModRTU_CRC_prefix:
  "0 \<le> len \<Longrightarrow> len \<le> int (length buf) \<Longrightarrow> ModRTU_CRC buf len = spec_checksum (take (nat len) buf)"
  by (simp add: ModRTU_CRC_def spec_checksum_def crc_bytes_eq)

text \<open>
  Claim C3. For every byte sequence, \<^verbatim>\<open>ModRTU_CRC\<close> run over the whole sequence returns
  what the algorithm of the specification returns: accumulator \<open>0xFFFF\<close>, each byte XORed
  into the low byte, eight conditional shift-and-XOR steps with \<open>0xA001\<close>, and the final
  accumulator returned as it is.
\<close>

theorem ModRTU_CRC_refines_spec:
  "ModRTU_CRC bytes (int (length bytes)) = spec_checksum bytes"
  by (simp add: ModRTU_CRC_def spec_checksum_def crc_bytes_eq)

section \<open>Proof tools\<close>

lemmas ResultCode_defs = OK_def ILLEGAL_CMD_def INTERNAL_COUNTER_ERR_def PERMISSION_DENIED_def
  CLOCK_ALREADY_CORRECTED_def CHANNEL_ISNT_OPEN_def WRONG_RESULT_SIZE_def WRONG_CRC_def
  CHECK_CHANNEL_TIME_OUT_def

lemmas sizeof_defs = sizeof_UInt16_def sizeof_TestCmd_def sizeof_InitCmd_def sizeof_ByeCmd_def
  sizeof_ReadParamCmd_def sizeof_Result_1b_def sizeof_Result_3b_def sizeof_Result_3x3b_def
  sizeof_Result_4x3b_def sizeof_Result_4x4b_def

lemmas as_Result_defs = as_Result_1b_def as_Result_3b_def as_Result_3x3b_def as_Result_4x3b_def
  as_Result_4x4b_def

lemmas world_defs = emit_def printPackage_def exitFailure_def nb_read_def nb_read_impl_def
  fresh_world_def bind_res_def BSZ_def CH_TIME_OUT_def TIME_OUT_def

subsection \<open>Validators\<close>

lemma nibble_bound: "uint ((x :: byte) AND 0x0F) \<le> 15"
proof -
  have "x AND 0x0F \<le> 0x0F" by (rule word_and_le1)
  then show ?thesis by (simp add: word_le_def)
qed

lemma nibble_mod: "uint ((x :: byte) AND 0x0F) = uint x mod 16"
proof -
  have "x AND 0x0F = x mod 16"
    using take_bit_eq_mask [of 4 x] by (simp add: mask_eq_exp_minus_1 take_bit_eq_mod)
  then show ?thesis by (simp add: uint_mod_distrib)
qed

lemma checkResult_1b_cases:
  "checkResult_1b buf len =
     (if len \<noteq> 4 then WRONG_RESULT_SIZE
      else if ModRTU_CRC buf 2 \<noteq> UInt16_at buf 2 then WRONG_CRC
      else uint (buf ! 1 AND 0x0F))"
  by (simp add: checkResult_1b_def Let_def sizeof_defs as_Result_defs)

lemma checkResult_3b_cases:
  "checkResult_3b buf len =
     (if len \<noteq> 6 then WRONG_RESULT_SIZE
      else if ModRTU_CRC buf 4 \<noteq> UInt16_at buf 4 then WRONG_CRC else OK)"
  by (simp add: checkResult_3b_def Let_def sizeof_defs as_Result_defs)

lemma checkResult_3x3b_cases:
  "checkResult_3x3b buf len =
     (if len \<noteq> 12 then WRONG_RESULT_SIZE
      else if ModRTU_CRC buf 10 \<noteq> UInt16_at buf 10 then WRONG_CRC else OK)"
  by (simp add: checkResult_3x3b_def Let_def sizeof_defs as_Result_defs)

lemma checkResult_4x3b_cases:
  "checkResult_4x3b buf len =
     (if len \<noteq> 15 then WRONG_RESULT_SIZE
      else if ModRTU_CRC buf 13 \<noteq> UInt16_at buf 13 then WRONG_CRC else OK)"
  by (simp add: checkResult_4x3b_def Let_def sizeof_defs as_Result_defs)

lemma checkResult_4x4b_cases:
  "checkResult_4x4b buf len =
     (if len \<noteq> 19 then WRONG_RESULT_SIZE
      else if ModRTU_CRC buf 17 \<noteq> UInt16_at buf 17 then WRONG_CRC else OK)"
  by (simp add: checkResult_4x4b_def Let_def sizeof_defs as_Result_defs)

text \<open>
  Claim C2. For every buffer and length, each validator returns \<open>WRONG_RESULT_SIZE\<close>
  exactly when the length differs from the size of its result structure (4, 6, 12, 15 and
  19 bytes), whatever the buffer holds; at the right length it returns \<open>WRONG_CRC\<close>
  exactly when the checksum computed over all bytes but the last two differs from the
  \<^verbatim>\<open>UInt16\<close> in the last two; and otherwise \<^verbatim>\<open>checkResult_1b\<close> returns the low four
  bits of the status byte, every other validator \<open>OK\<close>.
\<close>

theorem checkResult_outcomes:
  "(checkResult_1b buf len = WRONG_RESULT_SIZE \<longleftrightarrow> len \<noteq> 4) \<and>
   (len = 4 \<longrightarrow> (checkResult_1b buf len = WRONG_CRC \<longleftrightarrow> ModRTU_CRC buf 2 \<noteq> UInt16_at buf 2)) \<and>
   (len = 4 \<and> ModRTU_CRC buf 2 = UInt16_at buf 2 \<longrightarrow>
      checkResult_1b buf len = uint (buf ! 1 AND 0x0F) \<and>
      checkResult_1b buf len = uint (buf ! 1) mod 16) \<and>
   (checkResult_3b buf len = WRONG_RESULT_SIZE \<longleftrightarrow> len \<noteq> 6) \<and>
   (len = 6 \<longrightarrow> (checkResult_3b buf len = WRONG_CRC \<longleftrightarrow> ModRTU_CRC buf 4 \<noteq> UInt16_at buf 4)) \<and>
   (len = 6 \<and> ModRTU_CRC buf 4 = UInt16_at buf 4 \<longrightarrow> checkResult_3b buf len = OK) \<and>
   (checkResult_3x3b buf len = WRONG_RESULT_SIZE \<longleftrightarrow> len \<noteq> 12) \<and>
   (len = 12 \<longrightarrow>
      (checkResult_3x3b buf len = WRONG_CRC \<longleftrightarrow> ModRTU_CRC buf 10 \<noteq> UInt16_at buf 10)) \<and>
   (len = 12 \<and> ModRTU_CRC buf 10 = UInt16_at buf 10 \<longrightarrow> checkResult_3x3b buf len = OK) \<and>
   (checkResult_4x3b buf len = WRONG_RESULT_SIZE \<longleftrightarrow> len \<noteq> 15) \<and>
   (len = 15 \<longrightarrow>
      (checkResult_4x3b buf len = WRONG_CRC \<longleftrightarrow> ModRTU_CRC buf 13 \<noteq> UInt16_at buf 13)) \<and>
   (len = 15 \<and> ModRTU_CRC buf 13 = UInt16_at buf 13 \<longrightarrow> checkResult_4x3b buf len = OK) \<and>
   (checkResult_4x4b buf len = WRONG_RESULT_SIZE \<longleftrightarrow> len \<noteq> 19) \<and>
   (len = 19 \<longrightarrow>
      (checkResult_4x4b buf len = WRONG_CRC \<longleftrightarrow> ModRTU_CRC buf 17 \<noteq> UInt16_at buf 17)) \<and>
   (len = 19 \<and> ModRTU_CRC buf 17 = UInt16_at buf 17 \<longrightarrow> checkResult_4x4b buf len = OK)"
  using nibble_bound [of "buf ! 1"]
  by (simp add: checkResult_1b_cases checkResult_3b_cases checkResult_3x3b_cases
      checkResult_4x3b_cases checkResult_4x4b_cases ResultCode_defs nibble_mod)

theorem checkResult_outcomes_witness:
  "checkResult_1b [0x00, 0x01, 0xC0, 0x70] 4 = ILLEGAL_CMD \<and>
   checkResult_1b [0x00, 0x01, 0xC0, 0x71] 4 = WRONG_CRC \<and>
   checkResult_4x4b [0x00, 0x01, 0xC0, 0x70] 4 = WRONG_RESULT_SIZE"
proof -
  have a: "ModRTU_CRC [0x00, 0x01, 0xC0, 0x70] 2 = UInt16_at [0x00, 0x01, 0xC0, 0x70] 2"
    by code_simp
  have b: "ModRTU_CRC [0x00, 0x01, 0xC0, 0x71] 2 \<noteq> UInt16_at [0x00, 0x01, 0xC0, 0x71] 2"
    by code_simp
  show ?thesis
    using checkResult_outcomes [of "[0x00, 0x01, 0xC0, 0x70]" 4] a
      checkResult_outcomes [of "[0x00, 0x01, 0xC0, 0x71]" 4] b
    by (simp add: ILLEGAL_CMD_def)
qed

subsection \<open>Decoders\<close>

lemma byte_bound: "uint (b :: byte) < 256"
  using uint_bounded [of b] by simp

lemma uint_promote: "uint (ucast (b :: byte) :: cint) = uint b"
  by (rule uint_up_ucast) (simp add: is_up)

lemma byte_msb: "bit (b :: byte) 7 \<longleftrightarrow> 0x80 \<le> b"
proof -
  have "bit b 7 \<longleftrightarrow> bit (uint b) 7"
    by (simp add: bit_uint_iff)
  also have "\<dots> \<longleftrightarrow> odd (uint b div 128)"
    by (simp add: bit_iff_odd)
  also have "\<dots> \<longleftrightarrow> 128 \<le> uint b"
    using byte_bound [of b] uint_ge_0 [of b] by presburger
  also have "\<dots> \<longleftrightarrow> 0x80 \<le> b"
    by (simp add: word_le_def)
  finally show ?thesis .
qed

lemma pattern3_add:
  "(push_bit 16 (ucast (b0 :: byte)) OR push_bit 8 (ucast (b2 :: byte)) OR ucast (b1 :: byte) :: cint)
     = push_bit 16 (ucast b0) + (push_bit 8 (ucast b2) + ucast b1)"
proof -
  have 1: "push_bit 8 (ucast b2) + ucast b1 = (push_bit 8 (ucast b2) OR ucast b1 :: cint)"
    by (rule disjunctive_add) (auto simp add: bit_simps dest: bit_imp_le_length)
  have 2: "push_bit 16 (ucast b0) + (push_bit 8 (ucast b2) OR ucast b1)
             = (push_bit 16 (ucast b0) OR (push_bit 8 (ucast b2) OR ucast b1) :: cint)"
    by (rule disjunctive_add) (auto simp add: bit_simps dest: bit_imp_le_length)
  show ?thesis by (simp add: 1 2 or.assoc)
qed

lemma pattern3_uint:
  "uint (push_bit 16 (ucast (b0 :: byte)) OR push_bit 8 (ucast (b2 :: byte)) OR ucast (b1 :: byte) :: cint)
     = 65536 * uint b0 + 256 * uint b2 + uint b1"
  unfolding pattern3_add
  using byte_bound [of b0] byte_bound [of b1] byte_bound [of b2]
  by (simp add: uint_word_ariths unsigned_push_bit_eq push_bit_eq_mult
      take_bit_eq_mod uint_promote)

lemma pattern3_sint:
  "sint (push_bit 16 (ucast (b0 :: byte)) OR push_bit 8 (ucast (b2 :: byte)) OR ucast (b1 :: byte) :: cint)
     = 65536 * uint b0 + 256 * uint b2 + uint b1"
proof -
  have lt: "65536 * uint b0 + 256 * uint b2 + uint b1 < 2 ^ 31"
    using byte_bound [of b0] byte_bound [of b1] byte_bound [of b2] by simp
  have p: "(2 :: int) ^ 31 = 2147483648"
    by simp
  have nn: "- (2 ^ 31) \<le> 65536 * uint b0 + 256 * uint b2 + uint b1"
    unfolding p using uint_ge_0 [of b0] uint_ge_0 [of b1] uint_ge_0 [of b2] by linarith
  have "signed_take_bit 31 (65536 * uint b0 + 256 * uint b2 + uint b1)
          = 65536 * uint b0 + 256 * uint b2 + uint b1"
    using nn lt by (rule signed_take_bit_int_eq_self)
  then show ?thesis
    by (simp add: sint_uint pattern3_uint)
qed



lemma pattern4_negative:
  "sint (push_bit 24 (ucast (c1 :: byte)) OR push_bit 16 (ucast (c0 :: byte))
           OR push_bit 8 (ucast (c3 :: byte)) OR ucast (c2 :: byte) :: cint) < 0
     \<longleftrightarrow> 0x80 \<le> c1"
proof -
  have "sint (push_bit 24 (ucast c1) OR push_bit 16 (ucast c0)
                OR push_bit 8 (ucast c3) OR ucast c2 :: cint) < 0 \<longleftrightarrow> bit c1 7"
    by (subst bit_last_iff [symmetric]) (auto simp add: bit_simps dest: bit_imp_le_length)
  then show ?thesis by (simp add: byte_msb)
qed



text \<open>
  Claim C10. For a positive factor, \<^verbatim>\<open>B4F\<close> is negative whenever the byte at position 1
  is at least \<open>0x80\<close> (and not negative otherwise), and \<^verbatim>\<open>B3F\<close> is never negative.
\<close>

theorem decoders_sign:
  "0 < factor \<Longrightarrow>
   (0x80 \<le> c1 \<longrightarrow> B4F [c0, c1, c2, c3] factor < 0) \<and>
   (c1 < 0x80 \<longrightarrow> 0 \<le> B4F [c0, c1, c2, c3] factor) \<and>
   0 \<le> B3F [b0, b1, b2] factor"
proof -
  assume f: "0 < factor"
  have neg: "0x80 \<le> c1 \<Longrightarrow> B4F [c0, c1, c2, c3] factor < 0"
    using f pattern4_negative [of c1 c0 c3 c2]
    by (simp add: B4F_def divide_neg_pos del: of_int_sint)
  have pos: "c1 < 0x80 \<Longrightarrow> 0 \<le> B4F [c0, c1, c2, c3] factor"
    using f pattern4_negative [of c1 c0 c3 c2]
    by (simp add: B4F_def not_le [symmetric] del: of_int_sint)
  have "0 \<le> sint (push_bit 16 (ucast b0) OR push_bit 8 (ucast b2) OR ucast b1 :: cint)"
    by (simp only: pattern3_sint) simp
  then have three: "0 \<le> B3F [b0, b1, b2] factor"
    using f by (simp add: B3F_def del: of_int_sint)
  show ?thesis using neg pos three by simp
qed


theorem decoders_sign_witness:
  "(0 :: real) < 1000 \<and> (0x80 :: byte) \<le> 0x80 \<and> B4F [0x00, 0x80, 0x00, 0x00] 1000 < 0 \<and>
   (0x7F :: byte) < 0x80 \<and> 0 \<le> B4F [0xFF, 0x7F, 0xFF, 0xFF] 1000 \<and>
   0 \<le> B3F [0xFF, 0xFF, 0xFF] 1000"
  using decoders_sign [of 1000 "0x80" "0x00" "0x00" "0x00" "0xFF" "0xFF" "0xFF"]
    decoders_sign [of 1000 "0x7F" "0xFF" "0xFF" "0xFF" "0xFF" "0xFF" "0xFF"]
  by simp


subsection \<open>Request frames\<close>

lemma UInt16_roundtrip:
  "ucast (ucast v :: byte) OR push_bit 8 (ucast (ucast (drop_bit 8 v) :: byte)) = (v :: UInt16)"
  by (rule bit_word_eqI) (auto simp add: bit_simps)

lemma UInt16_at_append: "UInt16_at (p @ UInt16_bytes c) (length p) = c"
  by (simp add: UInt16_at_def UInt16_bytes_def nth_append UInt16_roundtrip)

lemma ModRTU_CRC_append:
  "ModRTU_CRC (p @ q) (int (length p)) = ModRTU_CRC p (int (length p))"
  by (simp add: ModRTU_CRC_prefix)

lemma frame_crc_consistent:
  "crc_consistent (p @ UInt16_bytes (ModRTU_CRC (p @ UInt16_bytes 0) (int (length p))))"
proof -
  have len: "length (p @ UInt16_bytes c) - 2 = length p" for c
    by (simp add: UInt16_bytes_def)
  have ilen: "int (length (p @ UInt16_bytes c)) - 2 = int (length p)" for c
    by (simp add: UInt16_bytes_def)
  show ?thesis
    unfolding crc_consistent_def len ilen
    by (simp add: ModRTU_CRC_append UInt16_at_append) (simp add: UInt16_bytes_def)
qed

lemma ReadParamCmd_consistent:
  "crc_consistent (bytes_of_ReadParamCmd
     (let cmd = \<lparr>ReadParamCmd.address = a, ReadParamCmd.command = c,
                 ReadParamCmd.paramId = p, ReadParamCmd.BWRI = b, ReadParamCmd.CRC = 0\<rparr>
      in cmd\<lparr>ReadParamCmd.CRC :=
               ModRTU_CRC (bytes_of_ReadParamCmd cmd) (sizeof_ReadParamCmd - sizeof_UInt16)\<rparr>))"
  using frame_crc_consistent [of "[a, c, p, b]"]
  by (simp add: bytes_of_ReadParamCmd_def Let_def sizeof_defs)

text \<open>
  Claim C8. Every request frame the program builds (probe, initialise, terminate, the
  seven read-parameter requests and the energy-counter request for any period, month and
  tariff) carries its own checksum: recomputing \<^verbatim>\<open>ModRTU_CRC\<close> over all bytes but the
  last two gives the \<^verbatim>\<open>UInt16\<close> stored in the last two.
\<close>

theorem request_frames_crc_consistent:
  "crc_consistent (bytes_of_TestCmd testCmd) \<and>
   crc_consistent (bytes_of_InitCmd initCmd) \<and>
   crc_consistent (bytes_of_ByeCmd byeCmd) \<and>
   crc_consistent (bytes_of_ReadParamCmd getUCmd) \<and>
   crc_consistent (bytes_of_ReadParamCmd getICmd) \<and>
   crc_consistent (bytes_of_ReadParamCmd getCosCmd) \<and>
   crc_consistent (bytes_of_ReadParamCmd getFCmd) \<and>
   crc_consistent (bytes_of_ReadParamCmd getACmd) \<and>
   crc_consistent (bytes_of_ReadParamCmd getPCmd) \<and>
   crc_consistent (bytes_of_ReadParamCmd getSCmd) \<and>
   crc_consistent (bytes_of_ReadParamCmd (getWCmd periodId month tariffNo))"
proof -
  have t: "crc_consistent (bytes_of_TestCmd testCmd)"
    using frame_crc_consistent [of "[PM_ADDRESS, 0x00]"]
    by (simp add: testCmd_def bytes_of_TestCmd_def Let_def sizeof_defs)
  have i: "crc_consistent (bytes_of_InitCmd initCmd)"
    using frame_crc_consistent [of "[PM_ADDRESS, 0x01, 0x01, 0x01, 0x01, 0x01, 0x01, 0x01, 0x01]"]
    by (simp add: initCmd_def bytes_of_InitCmd_def Let_def sizeof_defs)
  have b: "crc_consistent (bytes_of_ByeCmd byeCmd)"
    using frame_crc_consistent [of "[PM_ADDRESS, 0x02]"]
    by (simp add: byeCmd_def bytes_of_ByeCmd_def Let_def sizeof_defs)
  show ?thesis
    unfolding getUCmd_def getICmd_def getCosCmd_def getFCmd_def getACmd_def getPCmd_def
      getSCmd_def getWCmd_def
    using t i b by (simp only: ReadParamCmd_consistent simp_thms)
qed

subsection \<open>Queries\<close>

text \<open>
  Claim C9. Whenever a query function returns a result code other than \<open>OK\<close>, the
  structure it was given is returned unchanged: it is written only when validation
  returns \<open>OK\<close>.
\<close>

theorem queries_write_only_on_OK:
  "(\<forall>r U' w'. getU U w = Ret (r, U') w' \<and> r \<noteq> OK \<longrightarrow> U' = U) \<and>
   (\<forall>r I' w'. getI I w = Ret (r, I') w' \<and> r \<noteq> OK \<longrightarrow> I' = I) \<and>
   (\<forall>r C' w'. getCosF C w = Ret (r, C') w' \<and> r \<noteq> OK \<longrightarrow> C' = C) \<and>
   (\<forall>r f' w'. getF f w = Ret (r, f') w' \<and> r \<noteq> OK \<longrightarrow> f' = f) \<and>
   (\<forall>r A' w'. getA A w = Ret (r, A') w' \<and> r \<noteq> OK \<longrightarrow> A' = A) \<and>
   (\<forall>r P' w'. getP P w = Ret (r, P') w' \<and> r \<noteq> OK \<longrightarrow> P' = P) \<and>
   (\<forall>r S' w'. getS S w = Ret (r, S') w' \<and> r \<noteq> OK \<longrightarrow> S' = S) \<and>
   (\<forall>r W' w'. getW W periodId month tariffNo w = Ret (r, W') w' \<and> r \<noteq> OK \<longrightarrow> W' = W)"
proof -
  have u: "\<forall>r U' w'. getU U w = Ret (r, U') w' \<and> r \<noteq> OK \<longrightarrow> U' = U"
    by (auto simp add: getU_def Let_def split: res.splits prod.splits if_splits)
  have i: "\<forall>r I' w'. getI I w = Ret (r, I') w' \<and> r \<noteq> OK \<longrightarrow> I' = I"
    by (auto simp add: getI_def Let_def split: res.splits prod.splits if_splits)
  have c: "\<forall>r C' w'. getCosF C w = Ret (r, C') w' \<and> r \<noteq> OK \<longrightarrow> C' = C"
    by (auto simp add: getCosF_def Let_def split: res.splits prod.splits if_splits)
  have f: "\<forall>r f' w'. getF f w = Ret (r, f') w' \<and> r \<noteq> OK \<longrightarrow> f' = f"
    by (auto simp add: getF_def Let_def split: res.splits prod.splits if_splits)
  have a: "\<forall>r A' w'. getA A w = Ret (r, A') w' \<and> r \<noteq> OK \<longrightarrow> A' = A"
    by (auto simp add: getA_def Let_def split: res.splits prod.splits if_splits)
  have p: "\<forall>r P' w'. getP P w = Ret (r, P') w' \<and> r \<noteq> OK \<longrightarrow> P' = P"
    by (auto simp add: getP_def Let_def split: res.splits prod.splits if_splits)
  have s: "\<forall>r S' w'. getS S w = Ret (r, S') w' \<and> r \<noteq> OK \<longrightarrow> S' = S"
    by (auto simp add: getS_def Let_def split: res.splits prod.splits if_splits)
  have w: "\<forall>r W' w'. getW W periodId month tariffNo w = Ret (r, W') w' \<and> r \<noteq> OK
             \<longrightarrow> W' = W"
    by (auto simp add: getW_def Let_def split: res.splits prod.splits if_splits)
  show ?thesis
    by (intro conjI u i c f a p s w)
qed

lemma short_reply:
  "checkResult_3x3b [0x00] 1 = WRONG_RESULT_SIZE" "checkResult_4x3b [0x00] 1 = WRONG_RESULT_SIZE"
  "checkResult_3b [0x00] 1 = WRONG_RESULT_SIZE" "checkResult_4x4b [0x00] 1 = WRONG_RESULT_SIZE"
  by (simp_all add: checkResult_3x3b_cases checkResult_4x3b_cases checkResult_3b_cases checkResult_4x4b_cases)

text \<open>
  A reply of one byte has the wrong size for every query: each returns
  \<open>WRONG_RESULT_SIZE\<close> and the structure it was given.
\<close>

theorem queries_write_only_on_OK_witness:
  "WRONG_RESULT_SIZE \<noteq> OK \<and>
   (\<exists>w'. getU stale3 (fresh_world False [Received [0x00]])
            = Ret (WRONG_RESULT_SIZE, stale3) w') \<and>
   (\<exists>w'. getI stale3 (fresh_world False [Received [0x00]])
            = Ret (WRONG_RESULT_SIZE, stale3) w') \<and>
   (\<exists>w'. getCosF stale4 (fresh_world False [Received [0x00]])
            = Ret (WRONG_RESULT_SIZE, stale4) w') \<and>
   (\<exists>w'. getF 7 (fresh_world False [Received [0x00]])
            = Ret (WRONG_RESULT_SIZE, 7) w') \<and>
   (\<exists>w'. getA stale3 (fresh_world False [Received [0x00]])
            = Ret (WRONG_RESULT_SIZE, stale3) w') \<and>
   (\<exists>w'. getP stale4 (fresh_world False [Received [0x00]])
            = Ret (WRONG_RESULT_SIZE, stale4) w') \<and>
   (\<exists>w'. getS stale4 (fresh_world False [Received [0x00]])
            = Ret (WRONG_RESULT_SIZE, stale4) w') \<and>
   (\<exists>w'. getW stale4 PP_TODAY 0 0 (fresh_world False [Received [0x00]])
            = Ret (WRONG_RESULT_SIZE, stale4) w')"
proof -
  let ?w = "fresh_world False [Received [0x00]]"
  have ne: "WRONG_RESULT_SIZE \<noteq> OK"
    by (simp add: ResultCode_defs)
  obtain U' w1 where u: "getU stale3 ?w = Ret (WRONG_RESULT_SIZE, U') w1"
    by (simp add: getU_def Let_def world_defs short_reply ne [symmetric])
  obtain I' w2 where i: "getI stale3 ?w = Ret (WRONG_RESULT_SIZE, I') w2"
    by (simp add: getI_def Let_def world_defs short_reply ne [symmetric])
  obtain C' w3 where c: "getCosF stale4 ?w = Ret (WRONG_RESULT_SIZE, C') w3"
    by (simp add: getCosF_def Let_def world_defs short_reply ne [symmetric])
  obtain f' w4 where f: "getF 7 ?w = Ret (WRONG_RESULT_SIZE, f') w4"
    by (simp add: getF_def Let_def world_defs short_reply ne [symmetric])
  obtain A' w5 where a: "getA stale3 ?w = Ret (WRONG_RESULT_SIZE, A') w5"
    by (simp add: getA_def Let_def world_defs short_reply ne [symmetric])
  obtain P' w6 where p: "getP stale4 ?w = Ret (WRONG_RESULT_SIZE, P') w6"
    by (simp add: getP_def Let_def world_defs short_reply ne [symmetric])
  obtain S' w7 where s: "getS stale4 ?w = Ret (WRONG_RESULT_SIZE, S') w7"
    by (simp add: getS_def Let_def world_defs short_reply ne [symmetric])
  obtain W' w8 where w: "getW stale4 PP_TODAY 0 0 ?w = Ret (WRONG_RESULT_SIZE, W') w8"
    by (simp add: getW_def Let_def world_defs short_reply ne [symmetric])
  note inst = queries_write_only_on_OK [where U = stale3 and I = stale3 and C = stale4
      and f = 7 and A = stale3 and P = stale4 and S = stale4 and W = stale4 and w = ?w
      and periodId = PP_TODAY and month = 0 and tariffNo = 0]
  note c1 = inst [THEN conjunct1]
  note r1 = inst [THEN conjunct2]
  note c2 = r1 [THEN conjunct1]
  note r2 = r1 [THEN conjunct2]
  note c3 = r2 [THEN conjunct1]
  note r3 = r2 [THEN conjunct2]
  note c4 = r3 [THEN conjunct1]
  note r4 = r3 [THEN conjunct2]
  note c5 = r4 [THEN conjunct1]
  note r5 = r4 [THEN conjunct2]
  note c6 = r5 [THEN conjunct1]
  note r6 = r5 [THEN conjunct2]
  note c7 = r6 [THEN conjunct1]
  note c8 = r6 [THEN conjunct2]
  have "U' = stale3" by (rule c1 [rule_format, OF conjI [OF u ne]])
  moreover have "I' = stale3" by (rule c2 [rule_format, OF conjI [OF i ne]])
  moreover have "C' = stale4" by (rule c3 [rule_format, OF conjI [OF c ne]])
  moreover have "f' = 7" by (rule c4 [rule_format, OF conjI [OF f ne]])
  moreover have "A' = stale3" by (rule c5 [rule_format, OF conjI [OF a ne]])
  moreover have "P' = stale4" by (rule c6 [rule_format, OF conjI [OF p ne]])
  moreover have "S' = stale4" by (rule c7 [rule_format, OF conjI [OF s ne]])
  moreover have "W' = stale4" by (rule c8 [rule_format, OF conjI [OF w ne]])
  ultimately show ?thesis
    using u i c f a p s w ne by blast
qed

section \<open>The session\<close>

subsection \<open>The command sequence\<close>

lemma sent_append [simp]: "sent (xs @ ys) = sent xs @ sent ys"
  by (induction xs rule: sent.induct) simp_all

lemma follows_Ret: "follows [] [] w (Ret a w)"
  by (simp add: follows_def)

lemma follows_bind:
  assumes s: "step c f F code"
    and k: "\<And>a w'. code a = OK \<Longrightarrow> follows cs fs w' (K a w')"
  shows "follows (c # cs) (f # fs) w
           (bind_res (F w) (\<lambda>a w'. if OK \<noteq> code a then exitFailure msg w' else K a w'))"
proof (cases "F w")
  case (Exited w')
  have "\<not> (\<exists>r rs. rxq w = r # rs \<and> reply_ok c r)"
    using s Exited unfolding step_def by (metis res.distinct(1))
  then have z: "ok_replies (c # cs) (rxq w) = 0"
    by (cases "rxq w") auto
  have "sent (trace w') = sent (trace w) @ [f]"
    using s Exited unfolding step_def by (metis world_of.simps(1))
  then show ?thesis
    using Exited z by (simp add: follows_def bind_res_def)
next
  case (Ret a w')
  have sf: "sent (trace w') = sent (trace w) @ [f]"
    using s Ret unfolding step_def by (metis world_of.simps(2))
  show ?thesis
  proof (cases "code a = OK")
    case True
    then obtain r rs where q: "rxq w = r # rs" "reply_ok c r" "rxq w' = rs"
      using s Ret unfolding step_def by blast
    have "follows cs fs w' (K a w')"
      using True by (rule k)
    then show ?thesis
      using Ret True q sf by (simp add: follows_def bind_res_def)
  next
    case False
    have "\<not> (\<exists>r rs. rxq w = r # rs \<and> reply_ok c r)"
      using s Ret False unfolding step_def by (metis res.inject)
    then have z: "ok_replies (c # cs) (rxq w) = 0"
      by (cases "rxq w") auto
    show ?thesis
      using Ret False z sf by (auto simp add: follows_def bind_res_def exitFailure_def emit_def)
  qed
qed

lemma OK_needs_size:
  "checkResult_1b buf len = OK \<Longrightarrow> len = 4"
  "checkResult_3b buf len = OK \<Longrightarrow> len = 6"
  "checkResult_3x3b buf len = OK \<Longrightarrow> len = 12"
  "checkResult_4x3b buf len = OK \<Longrightarrow> len = 15"
  "checkResult_4x4b buf len = OK \<Longrightarrow> len = 19"
  by (simp_all add: checkResult_1b_cases checkResult_3b_cases checkResult_3x3b_cases
      checkResult_4x3b_cases checkResult_4x4b_cases ResultCode_defs split: if_splits)

lemma step_getU: "step checkResult_3x3b (bytes_of_ReadParamCmd getUCmd) (getU U) fst"
  unfolding step_def
  by (intro allI conjI)
    (auto simp add: getU_def Let_def world_defs reply_ok_def
      split: list.splits rx.splits if_splits dest: OK_needs_size OK_needs_size [OF sym])

lemma step_checkChannel: "step checkResult_1b (bytes_of_TestCmd testCmd) checkChannel (\<lambda>r. r)"
  unfolding step_def
  by (intro allI conjI)
    (auto simp add: checkChannel_def Let_def world_defs reply_ok_def CHECK_CHANNEL_TIME_OUT_def OK_def
      split: list.splits rx.splits if_splits dest: OK_needs_size [unfolded OK_def] OK_needs_size [unfolded OK_def, OF sym])

lemma step_initConnection:
  "step checkResult_1b (bytes_of_InitCmd initCmd) initConnection (\<lambda>r. r)"
  unfolding step_def
  by (intro allI conjI)
    (auto simp add: initConnection_def Let_def world_defs reply_ok_def
      split: list.splits rx.splits if_splits dest: OK_needs_size OK_needs_size [OF sym])

lemma step_closeConnection:
  "step checkResult_1b (bytes_of_ByeCmd byeCmd) closeConnection (\<lambda>r. r)"
  unfolding step_def
  by (intro allI conjI)
    (auto simp add: closeConnection_def Let_def world_defs reply_ok_def
      split: list.splits rx.splits if_splits dest: OK_needs_size OK_needs_size [OF sym])

lemma step_getI: "step checkResult_3x3b (bytes_of_ReadParamCmd getICmd) (getI I) fst"
  unfolding step_def
  by (intro allI conjI)
    (auto simp add: getI_def Let_def world_defs reply_ok_def
      split: list.splits rx.splits if_splits dest: OK_needs_size OK_needs_size [OF sym])

lemma step_getCosF: "step checkResult_4x3b (bytes_of_ReadParamCmd getCosCmd) (getCosF C) fst"
  unfolding step_def
  by (intro allI conjI)
    (auto simp add: getCosF_def Let_def world_defs reply_ok_def
      split: list.splits rx.splits if_splits dest: OK_needs_size OK_needs_size [OF sym])

lemma step_getF: "step checkResult_3b (bytes_of_ReadParamCmd getFCmd) (getF f) fst"
  unfolding step_def
  by (intro allI conjI)
    (auto simp add: getF_def Let_def world_defs reply_ok_def
      split: list.splits rx.splits if_splits dest: OK_needs_size OK_needs_size [OF sym])

lemma step_getA: "step checkResult_3x3b (bytes_of_ReadParamCmd getACmd) (getA A) fst"
  unfolding step_def
  by (intro allI conjI)
    (auto simp add: getA_def Let_def world_defs reply_ok_def
      split: list.splits rx.splits if_splits dest: OK_needs_size OK_needs_size [OF sym])

lemma step_getP: "step checkResult_4x3b (bytes_of_ReadParamCmd getPCmd) (getP P) fst"
  unfolding step_def
  by (intro allI conjI)
    (auto simp add: getP_def Let_def world_defs reply_ok_def
      split: list.splits rx.splits if_splits dest: OK_needs_size OK_needs_size [OF sym])

lemma step_getS: "step checkResult_4x3b (bytes_of_ReadParamCmd getSCmd) (getS S) fst"
  unfolding step_def
  by (intro allI conjI)
    (auto simp add: getS_def Let_def world_defs reply_ok_def
      split: list.splits rx.splits if_splits dest: OK_needs_size OK_needs_size [OF sym])

lemma step_getW: "step checkResult_4x4b (bytes_of_ReadParamCmd (getWCmd periodId month tariffNo)) (getW W periodId month tariffNo) fst"
  unfolding step_def
  by (intro allI conjI)
    (auto simp add: getW_def Let_def world_defs reply_ok_def
      split: list.splits rx.splits if_splits dest: OK_needs_size OK_needs_size [OF sym])

lemma follows_main_case_OK:
  "follows (tl validators) (tl issued_sequence) w (main_case_OK l w)"
  unfolding main_case_OK_def validators_def issued_sequence_def list.sel Let_def case_prod_beta
  apply (rule follows_bind [where code = "\<lambda>r. r", OF step_checkChannel])
  apply (rule follows_bind [where code = "\<lambda>r. r", OF step_initConnection])
  apply (rule follows_bind [where code = fst, OF step_getU])
  apply (rule follows_bind [where code = fst, OF step_getI])
  apply (rule follows_bind [where code = fst, OF step_getCosF])
  apply (rule follows_bind [where code = fst, OF step_getF])
  apply (rule follows_bind [where code = fst, OF step_getA])
  apply (rule follows_bind [where code = fst, OF step_getP])
  apply (rule follows_bind [where code = fst, OF step_getS])
  apply (rule follows_bind [where code = fst, OF step_getW])
  apply (rule follows_bind [where code = fst, OF step_getW])
  apply (rule follows_bind [where code = fst, OF step_getW])
  apply (rule follows_bind [where code = "\<lambda>r. r", OF step_closeConnection])
  apply (rule follows_Ret)
  done

lemma sent_main: "sent (trace (main l w)) = sent (trace (world_of (main_switch l w)))"
  by (cases "main_switch l w") (simp_all add: main_def Let_def emit_def)

lemma sent_main_switch:
  "sent (trace (world_of (main_switch l w)))
     = sent (trace w) @ take (Suc (ok_replies validators (rxq w))) issued_sequence"
proof -
  note s = step_checkChannel [unfolded step_def, rule_format, of w]
  have first: "sent (trace (world_of (checkChannel w))) = sent (trace w) @ [bytes_of_TestCmd testCmd]"
    using s by blast
  have hd: "validators = checkResult_1b # tl validators"
       "issued_sequence = bytes_of_TestCmd testCmd # tl issued_sequence"
    by (simp_all add: validators_def issued_sequence_def)
  show ?thesis
  proof (cases "\<exists>r rs. rxq w = r # rs \<and> reply_ok checkResult_1b r")
    case True
    then obtain r rs where q: "rxq w = r # rs" "reply_ok checkResult_1b r"
      by blast
    obtain w' where c: "checkChannel w = Ret OK w'"
      using s True by blast
    have q': "rxq w' = rs"
      using s c q by auto
    have "follows (tl validators) (tl issued_sequence) w' (main_case_OK l w')"
      by (rule follows_main_case_OK)
    then have "sent (trace (world_of (main_case_OK l w')))
                 = sent (trace w') @ take (Suc (ok_replies (tl validators) rs)) (tl issued_sequence)"
      by (simp add: follows_def q')
    moreover have "ok_replies validators (rxq w) = Suc (ok_replies (tl validators) rs)"
      by (subst hd(1)) (simp add: q)
    moreover have "take (Suc (Suc n)) issued_sequence
                     = bytes_of_TestCmd testCmd # take (Suc n) (tl issued_sequence)" for n
      by (subst hd(2)) simp
    ultimately show ?thesis
      using c first by (simp add: main_switch_def)
  next
    case False
    then have z: "ok_replies validators (rxq w) = 0"
      by (subst hd(1), cases "rxq w") auto
    have one: "take (Suc 0) issued_sequence = [bytes_of_TestCmd testCmd]"
      by (subst hd(2)) simp
    have "sent (trace (world_of (main_switch l w))) = sent (trace (world_of (checkChannel w)))"
      using s False
      by (cases "checkChannel w") (auto simp add: main_switch_def Let_def exitFailure_def emit_def)
    then show ?thesis
      using first z one by simp
  qed
qed

lemma ends_Ret: "ends [] w (Ret a w)"
  by (simp add: ends_def)

lemma exits_failed_exitFailure: "exits_failed (world_of (exitFailure msg w))"
  by (simp add: exits_failed_def exitFailure_def emit_def)

lemma ends_bind:
  assumes s: "step c f F code"
    and x: "\<And>w w'. F w = Exited w' \<Longrightarrow> exits_failed w'"
    and k: "\<And>a w'. code a = OK \<Longrightarrow> ends cs w' (K a w')"
  shows "ends (c # cs) w
           (bind_res (F w) (\<lambda>a w'. if OK \<noteq> code a then exitFailure msg w' else K a w'))"
proof (cases "F w")
  case (Exited w')
  have "\<not> (\<exists>r rs. rxq w = r # rs \<and> reply_ok c r)"
    using s Exited unfolding step_def by (metis res.distinct(1))
  then have z: "ok_replies (c # cs) (rxq w) = 0"
    by (cases "rxq w") auto
  show ?thesis
    using Exited z x [OF Exited] by (simp add: ends_def bind_res_def)
next
  case (Ret a w')
  show ?thesis
  proof (cases "code a = OK")
    case True
    then obtain r rs where q: "rxq w = r # rs" "reply_ok c r" "rxq w' = rs"
      using s Ret unfolding step_def by blast
    have "ends cs w' (K a w')"
      using True by (rule k)
    then show ?thesis
      using Ret True q by (simp add: ends_def bind_res_def split: res.splits)
  next
    case False
    have "\<not> (\<exists>r rs. rxq w = r # rs \<and> reply_ok c r)"
      using s Ret False unfolding step_def by (metis res.inject)
    then have z: "ok_replies (c # cs) (rxq w) = 0"
      by (cases "rxq w") auto
    show ?thesis
      using Ret False z exits_failed_exitFailure [of msg w']
      by (simp add: ends_def bind_res_def exitFailure_def)
  qed
qed

lemma exit_in_nb_read_impl: "nb_read_impl w = Exited w' \<Longrightarrow> exits_failed w'"
  by (auto simp add: world_defs exits_failed_def Let_def split: list.splits rx.splits)

lemma exit_in_nb_read: "nb_read w = Exited w' \<Longrightarrow> exits_failed w'"
  by (auto simp add: nb_read_def exitFailure_def emit_def exits_failed_def
      split: res.splits prod.splits if_splits dest: exit_in_nb_read_impl)

lemma exit_in_command:
  "checkChannel w = Exited w' \<Longrightarrow> exits_failed w'"
  "initConnection w = Exited w' \<Longrightarrow> exits_failed w'"
  "closeConnection w = Exited w' \<Longrightarrow> exits_failed w'"
  "getU U w = Exited w' \<Longrightarrow> exits_failed w'"
  "getI I w = Exited w' \<Longrightarrow> exits_failed w'"
  "getCosF C w = Exited w' \<Longrightarrow> exits_failed w'"
  "getF f w = Exited w' \<Longrightarrow> exits_failed w'"
  "getA A w = Exited w' \<Longrightarrow> exits_failed w'"
  "getP P w = Exited w' \<Longrightarrow> exits_failed w'"
  "getS S w = Exited w' \<Longrightarrow> exits_failed w'"
  "getW W periodId month tariffNo w = Exited w' \<Longrightarrow> exits_failed w'"
  by (auto simp add: checkChannel_def initConnection_def closeConnection_def getU_def getI_def
      getCosF_def getF_def getA_def getP_def getS_def getW_def Let_def
      split: res.splits prod.splits if_splits dest: exit_in_nb_read exit_in_nb_read_impl)

lemma ends_main_case_OK: "ends (tl validators) w (main_case_OK l w)"
  unfolding main_case_OK_def validators_def list.sel Let_def case_prod_beta
  apply (rule ends_bind [where code = "\<lambda>r. r", OF step_checkChannel exit_in_command(1)], assumption)
  apply (rule ends_bind [where code = "\<lambda>r. r", OF step_initConnection exit_in_command(2)], assumption)
  apply (rule ends_bind [where code = fst, OF step_getU exit_in_command(4)], assumption)
  apply (rule ends_bind [where code = fst, OF step_getI exit_in_command(5)], assumption)
  apply (rule ends_bind [where code = fst, OF step_getCosF exit_in_command(6)], assumption)
  apply (rule ends_bind [where code = fst, OF step_getF exit_in_command(7)], assumption)
  apply (rule ends_bind [where code = fst, OF step_getA exit_in_command(8)], assumption)
  apply (rule ends_bind [where code = fst, OF step_getP exit_in_command(9)], assumption)
  apply (rule ends_bind [where code = fst, OF step_getS exit_in_command(10)], assumption)
  apply (rule ends_bind [where code = fst, OF step_getW exit_in_command(11)], assumption)
  apply (rule ends_bind [where code = fst, OF step_getW exit_in_command(11)], assumption)
  apply (rule ends_bind [where code = fst, OF step_getW exit_in_command(11)], assumption)
  apply (rule ends_bind [where code = "\<lambda>r. r", OF step_closeConnection exit_in_command(3)], assumption)
  apply (rule ends_Ret)
  done

lemma main_exit_status:
  assumes "0 < ok_replies validators (rxq w)"
  shows "last (trace (main l w))
           = Exit (if length validators \<le> ok_replies validators (rxq w) then EXIT_OK else EXIT_FAIL)"
proof -
  note s = step_checkChannel [unfolded step_def, rule_format, of w]
  have hd: "validators = checkResult_1b # tl validators"
    by (simp add: validators_def)
  obtain r rs where q: "rxq w = r # rs" "reply_ok checkResult_1b r"
    using assms by (subst (asm) hd, cases "rxq w") (auto split: if_splits)
  obtain w' where c: "checkChannel w = Ret OK w'"
    using s q by blast
  have q': "rxq w' = rs"
    using s c q by auto
  have n: "ok_replies validators (rxq w) = Suc (ok_replies (tl validators) rs)"
    by (subst hd) (simp add: q)
  have len: "length validators = 14" "length (tl validators) = 13"
    by (simp_all add: validators_def)
  have e: "ends (tl validators) w' (main_case_OK l w')"
    by (rule ends_main_case_OK)
  have m: "main_switch l w = main_case_OK l w'"
    using c by (simp add: main_switch_def)
  show ?thesis
  proof (cases "main_case_OK l w'")
    case (Exited w'')
    then show ?thesis
      using e m n q' by (simp add: ends_def main_def exits_failed_def len)
  next
    case (Ret l' w'')
    then show ?thesis
      using e m n q' by (simp add: ends_def main_def Let_def emit_def len)
  qed
qed

text \<open>
  Claim C5, as the code has it. In every run, the frames \<^verbatim>\<open>main\<close> writes are the frames of
  \<open>issued_sequence\<close> in that order, up to and including the first exchange whose reply
  is not accepted: probe, probe a second time, initialise, voltage, current, power factor,
  frequency, phase angles, active power, reactive power, energy from reset, energy of
  yesterday, energy of today, terminate. When all fourteen replies are accepted the whole
  sequence is written, each frame once except the probe, which is written twice, and the
  process exits with \<open>EXIT_OK\<close>. When the first probe is accepted and a later exchange
  fails, nothing is written after the frame of that exchange and the process exits with
  \<open>EXIT_FAIL\<close>.
\<close>

theorem main_command_sequence:
  "sent (trace (main l w))
     = sent (trace w) @ take (Suc (ok_replies validators (rxq w))) issued_sequence \<and>
   (length issued_sequence \<le> ok_replies validators (rxq w) \<longrightarrow>
      sent (trace (main l w)) = sent (trace w) @ issued_sequence \<and>
      last (trace (main l w)) = Exit EXIT_OK) \<and>
   (0 < ok_replies validators (rxq w) \<and>
    ok_replies validators (rxq w) < length issued_sequence \<longrightarrow>
      last (trace (main l w)) = Exit EXIT_FAIL)"
proof -
  have len: "length issued_sequence = length validators"
    by (simp add: issued_sequence_def validators_def)
  have pos: "length issued_sequence \<le> n \<Longrightarrow> 0 < n" for n
    by (simp add: issued_sequence_def)
  show ?thesis
    using main_exit_status [of w l] pos [of "ok_replies validators (rxq w)"]
    by (simp add: sent_main sent_main_switch len)
qed

subsection \<open>Pacing\<close>

lemma undumped_append [simp]: "undumped (xs @ ys) = undumped xs @ undumped ys"
  by (induction xs rule: undumped.induct) simp_all

lemma paced_append: "paced d xs \<Longrightarrow> paced d ys \<Longrightarrow> paced d (xs @ ys)"
  by (induction xs) (auto split: event.splits list.splits)

lemma paces_Ret: "paces w (Ret a w)"
  by (simp add: paces_def)

lemma paces_trans:
  assumes "paces w m" "paces (world_of m) m'"
  shows "paces w m'"
proof -
  obtain n1 where 1: "undumped (trace (world_of m)) = undumped (trace w) @ n1" "paced TIME_OUT n1"
    using assms(1) unfolding paces_def by blast
  obtain n2 where 2: "undumped (trace (world_of m')) = undumped (trace (world_of m)) @ n2"
      "paced TIME_OUT n2"
    using assms(2) unfolding paces_def by blast
  have "undumped (trace (world_of m')) = undumped (trace w) @ (n1 @ n2)"
    using 1 2 by simp
  moreover have "paced TIME_OUT (n1 @ n2)"
    using 1 2 by (simp add: paced_append)
  ultimately show ?thesis unfolding paces_def by blast
qed

lemma paces_exitFailure: "paces w (exitFailure msg w)"
  by (simp add: paces_def exitFailure_def emit_def)

lemma paces_bind:
  assumes f: "paces w (F w)"
    and k: "\<And>a w'. paces w' (K a w')"
  shows "paces w (bind_res (F w) (\<lambda>a w'. if c a then exitFailure msg w' else K a w'))"
proof (cases "F w")
  case (Exited w')
  then show ?thesis using f by (simp add: bind_res_def paces_def)
next
  case (Ret a w')
  have "paces w' (if c a then exitFailure msg w' else K a w')"
    by (simp add: paces_exitFailure k)
  then show ?thesis
    using paces_trans [OF f, of "if c a then exitFailure msg w' else K a w'"] Ret
    by (simp add: bind_res_def)
qed

lemma paces_checkChannel: "paces w (checkChannel w)"
  unfolding paces_def
  by (auto simp add: checkChannel_def Let_def world_defs split: list.splits rx.splits if_splits)

lemma paces_initConnection: "paces w (initConnection w)"
  unfolding paces_def
  by (auto simp add: initConnection_def Let_def world_defs split: list.splits rx.splits if_splits)

lemma paces_closeConnection: "paces w (closeConnection w)"
  unfolding paces_def
  by (auto simp add: closeConnection_def Let_def world_defs split: list.splits rx.splits if_splits)

lemma paces_getU: "paces w (getU U w)"
  unfolding paces_def
  by (auto simp add: getU_def Let_def world_defs split: list.splits rx.splits if_splits)

lemma paces_getI: "paces w (getI I w)"
  unfolding paces_def
  by (auto simp add: getI_def Let_def world_defs split: list.splits rx.splits if_splits)

lemma paces_getCosF: "paces w (getCosF C w)"
  unfolding paces_def
  by (auto simp add: getCosF_def Let_def world_defs split: list.splits rx.splits if_splits)

lemma paces_getF: "paces w (getF f w)"
  unfolding paces_def
  by (auto simp add: getF_def Let_def world_defs split: list.splits rx.splits if_splits)

lemma paces_getA: "paces w (getA A w)"
  unfolding paces_def
  by (auto simp add: getA_def Let_def world_defs split: list.splits rx.splits if_splits)

lemma paces_getP: "paces w (getP P w)"
  unfolding paces_def
  by (auto simp add: getP_def Let_def world_defs split: list.splits rx.splits if_splits)

lemma paces_getS: "paces w (getS S w)"
  unfolding paces_def
  by (auto simp add: getS_def Let_def world_defs split: list.splits rx.splits if_splits)

lemma paces_getW: "paces w (getW W periodId month tariffNo w)"
  unfolding paces_def
  by (auto simp add: getW_def Let_def world_defs split: list.splits rx.splits if_splits)

lemma paces_main_case_OK: "paces w (main_case_OK l w)"
  unfolding main_case_OK_def Let_def case_prod_beta
  by (intro paces_bind paces_Ret paces_checkChannel paces_initConnection paces_closeConnection
      paces_getU paces_getI paces_getCosF paces_getF paces_getA paces_getP paces_getS paces_getW)

lemma checkChannel_starts:
  "\<exists>tail. undumped (trace (world_of (checkChannel w)))
            = undumped (trace w)
                @ Write (bytes_of_TestCmd testCmd) # Usleep TIME_OUT # Select CH_TIME_OUT # tail
          \<and> paced TIME_OUT tail"
  by (auto simp add: checkChannel_def Let_def world_defs split: list.splits rx.splits if_splits)

lemma paces_after_checkChannel: "paces (world_of (checkChannel w)) (main_switch l w)"
  by (cases "checkChannel w")
    (simp_all add: main_switch_def Let_def paces_main_case_OK paces_exitFailure paces_Ret,
      simp add: paces_def)

lemma main_finish:
  "\<exists>new. undumped (trace (main l w)) = undumped (trace (world_of (main_switch l w))) @ new
          \<and> paced TIME_OUT new"
  by (cases "main_switch l w") (simp_all add: main_def Let_def emit_def)

lemma main_starts:
  "\<exists>rest. undumped (trace (main l w))
            = undumped (trace w)
                @ Write (bytes_of_TestCmd testCmd) # Usleep TIME_OUT # Select CH_TIME_OUT # rest
          \<and> paced TIME_OUT rest"
proof -
  obtain tail where 1: "undumped (trace (world_of (checkChannel w)))
      = undumped (trace w)
          @ Write (bytes_of_TestCmd testCmd) # Usleep TIME_OUT # Select CH_TIME_OUT # tail"
      "paced TIME_OUT tail"
    using checkChannel_starts by blast
  obtain n2 where 2: "undumped (trace (world_of (main_switch l w)))
      = undumped (trace (world_of (checkChannel w))) @ n2" "paced TIME_OUT n2"
    using paces_after_checkChannel [of w l] unfolding paces_def by blast
  obtain n3 where 3: "undumped (trace (main l w))
      = undumped (trace (world_of (main_switch l w))) @ n3" "paced TIME_OUT n3"
    using main_finish by blast
  have "undumped (trace (main l w))
      = undumped (trace w)
          @ Write (bytes_of_TestCmd testCmd) # Usleep TIME_OUT # Select CH_TIME_OUT
              # (tail @ n2 @ n3)"
    using 1 2 3 by simp
  moreover have "paced TIME_OUT (tail @ n2 @ n3)"
    using 1 2 3 by (simp add: paced_append)
  ultimately show ?thesis by blast
qed

text \<open>
  Claim C7 against the code. In every run, each frame written is directly followed by
  \<^verbatim>\<open>usleep(TIME_OUT)\<close> and then by the wait for the reply; \<open>TIME_OUT\<close> is 50 and
  \<^verbatim>\<open>usleep\<close> takes microseconds, so the delay is 50 microseconds. No run is paced with
  50000 microseconds, the 50 milliseconds of the claim and of the comment on \<open>TIME_OUT\<close>.
\<close>

theorem inter_command_delay:
  "paced TIME_OUT (undumped (trace (main l (fresh_world dbg q)))) \<and>
   TIME_OUT = 50 \<and>
   \<not> paced 50000 (undumped (trace (main l (fresh_world dbg q))))"
proof -
  obtain rest where r: "undumped (trace (main l (fresh_world dbg q)))
      = Write (bytes_of_TestCmd testCmd) # Usleep TIME_OUT # Select CH_TIME_OUT # rest"
      "paced TIME_OUT rest"
    using main_starts [of l "fresh_world dbg q"] by (auto simp add: fresh_world_def)
  show ?thesis
    using r by (simp add: TIME_OUT_def)
qed


subsection \<open>Concrete runs\<close>

lemma frames:
  "bytes_of_TestCmd testCmd = [0x00, 0x00, 0x01, 0xB0]"
  "bytes_of_InitCmd initCmd = [0x00, 0x01, 0x01, 0x01, 0x01, 0x01, 0x01, 0x01, 0x01, 0x77, 0x81]"
  "bytes_of_ByeCmd byeCmd = [0x00, 0x02, 0x80, 0x71]"
  "bytes_of_ReadParamCmd getUCmd = [0x00, 0x08, 0x16, 0x11, 0x4F, 0x8A]"
  "bytes_of_ReadParamCmd getICmd = [0x00, 0x08, 0x16, 0x21, 0x4F, 0x9E]"
  "bytes_of_ReadParamCmd getCosCmd = [0x00, 0x08, 0x16, 0x30, 0x8F, 0x92]"
  "bytes_of_ReadParamCmd getFCmd = [0x00, 0x08, 0x16, 0x40, 0x8E, 0x76]"
  "bytes_of_ReadParamCmd getACmd = [0x00, 0x08, 0x16, 0x51, 0x4E, 0x7A]"
  "bytes_of_ReadParamCmd getPCmd = [0x00, 0x08, 0x16, 0x00, 0x8F, 0x86]"
  "bytes_of_ReadParamCmd getSCmd = [0x00, 0x08, 0x16, 0x08, 0x8E, 0x40]"
  "bytes_of_ReadParamCmd (getWCmd PP_RESET 0 0) = [0x00, 0x05, 0x00, 0x00, 0x10, 0x25]"
  "bytes_of_ReadParamCmd (getWCmd PP_YESTERDAY 0 0) = [0x00, 0x05, 0x50, 0x00, 0x2C, 0x25]"
  "bytes_of_ReadParamCmd (getWCmd PP_TODAY 0 0) = [0x00, 0x05, 0x40, 0x00, 0x21, 0xE5]"
  by code_simp+

lemma replies_checked:
  "checkResult_3x3b reply_3x3b_corrupt 12 = WRONG_CRC"
  "checkResult_1b reply_1b_OK 4 = OK"
  "checkResult_1b reply_1b_ILLEGAL_CMD 4 = ILLEGAL_CMD"
  "checkResult_3b reply_3b 6 = OK"
  "checkResult_3x3b reply_3x3b 12 = OK"
  "checkResult_4x3b reply_4x3b 15 = OK"
  "checkResult_4x4b reply_4x4b 19 = OK"
  by code_simp+

lemma reply_lengths [simp]:
  "length reply_1b_OK = 4" "length reply_1b_ILLEGAL_CMD = 4" "length reply_3b = 6"
  "length reply_3x3b = 12" "length reply_4x3b = 15" "length reply_4x4b = 19"
  "length reply_3x3b_corrupt = 12"
  by (simp_all add: reply_1b_OK_def reply_1b_ILLEGAL_CMD_def reply_3b_def reply_3x3b_def
      reply_4x3b_def reply_4x4b_def reply_3x3b_corrupt_def)

lemma reply_ok_simps [simp]:
  "reply_ok checkResult_1b (Received reply_1b_OK)"
  "\<not> reply_ok checkResult_1b (Received reply_1b_ILLEGAL_CMD)"
  "\<not> reply_ok checkResult_3x3b (Received reply_3x3b_corrupt)"
  "reply_ok checkResult_3b (Received reply_3b)"
  "reply_ok checkResult_3x3b (Received reply_3x3b)"
  "reply_ok checkResult_4x3b (Received reply_4x3b)"
  "reply_ok checkResult_4x4b (Received reply_4x4b)"
  by (simp_all add: reply_ok_def BSZ_def replies_checked ResultCode_defs)

lemma full_success_ok: "ok_replies validators full_success_replies = 14"
  by (simp add: validators_def full_success_replies_def)

lemma lengths_differ: "length issued_sequence = 14" "length spec_sequence = 13"
  by (simp_all add: issued_sequence_def spec_sequence_def)

text \<open>
  Claim C5 as stated fails on the run in which all fourteen replies are accepted: the
  frames written are not the sequence of the specification, which has the probe once; the
  first two frames are both the probe.
\<close>

theorem probe_sent_twice:
  "ok_replies validators full_success_replies = 14 \<and>
   sent (trace (main stale (fresh_world False full_success_replies))) \<noteq> spec_sequence \<and>
   take 2 (sent (trace (main stale (fresh_world False full_success_replies))))
     = [bytes_of_TestCmd testCmd, bytes_of_TestCmd testCmd]"
proof -
  have "sent (trace (main stale (fresh_world False full_success_replies))) = issued_sequence"
    by (simp add: sent_main sent_main_switch full_success_ok lengths_differ)
      (simp add: fresh_world_def full_success_ok lengths_differ)
  then have e: "sent (trace (main stale (fresh_world False full_success_replies))) = issued_sequence" .
  have 1: "sent (trace (main stale (fresh_world False full_success_replies))) \<noteq> spec_sequence"
    using e lengths_differ by auto
  have 2: "take 2 (sent (trace (main stale (fresh_world False full_success_replies))))
             = [bytes_of_TestCmd testCmd, bytes_of_TestCmd testCmd]"
    unfolding e by (simp add: issued_sequence_def)
  show ?thesis
    using full_success_ok 1 2 by simp
qed

text \<open>
  The run in which every reply is accepted: the fourteen frames, byte by byte. And the run
  in which the reply to the query of the current has a wrong checksum: five frames, the
  last one that query, and a failure exit.
\<close>

theorem main_command_sequence_witness:
  "length issued_sequence \<le> ok_replies validators (rxq (fresh_world False full_success_replies)) \<and>
   sent (trace (main stale (fresh_world False full_success_replies))) =
     [[0x00, 0x00, 0x01, 0xB0], [0x00, 0x00, 0x01, 0xB0],
      [0x00, 0x01, 0x01, 0x01, 0x01, 0x01, 0x01, 0x01, 0x01, 0x77, 0x81],
      [0x00, 0x08, 0x16, 0x11, 0x4F, 0x8A], [0x00, 0x08, 0x16, 0x21, 0x4F, 0x9E],
      [0x00, 0x08, 0x16, 0x30, 0x8F, 0x92], [0x00, 0x08, 0x16, 0x40, 0x8E, 0x76],
      [0x00, 0x08, 0x16, 0x51, 0x4E, 0x7A], [0x00, 0x08, 0x16, 0x00, 0x8F, 0x86],
      [0x00, 0x08, 0x16, 0x08, 0x8E, 0x40], [0x00, 0x05, 0x00, 0x00, 0x10, 0x25],
      [0x00, 0x05, 0x50, 0x00, 0x2C, 0x25], [0x00, 0x05, 0x40, 0x00, 0x21, 0xE5],
      [0x00, 0x02, 0x80, 0x71]] \<and>
   last (trace (main stale (fresh_world False full_success_replies))) = Exit EXIT_OK \<and>
   0 < ok_replies validators (rxq (fresh_world False current_corrupt_replies)) \<and>
   ok_replies validators (rxq (fresh_world False current_corrupt_replies))
     < length issued_sequence \<and>
   sent (trace (main stale (fresh_world False current_corrupt_replies))) =
     [[0x00, 0x00, 0x01, 0xB0], [0x00, 0x00, 0x01, 0xB0],
      [0x00, 0x01, 0x01, 0x01, 0x01, 0x01, 0x01, 0x01, 0x01, 0x77, 0x81],
      [0x00, 0x08, 0x16, 0x11, 0x4F, 0x8A], [0x00, 0x08, 0x16, 0x21, 0x4F, 0x9E]] \<and>
   last (trace (main stale (fresh_world False current_corrupt_replies))) = Exit EXIT_FAIL"
proof -
  have q: "rxq (fresh_world False full_success_replies) = full_success_replies"
       "trace (fresh_world False full_success_replies) = []"
       "rxq (fresh_world False current_corrupt_replies) = current_corrupt_replies"
       "trace (fresh_world False current_corrupt_replies) = []"
    by (simp_all add: fresh_world_def)
  have n: "ok_replies validators current_corrupt_replies = 4"
    by (simp add: validators_def current_corrupt_replies_def)
  have h1: "length issued_sequence
              \<le> ok_replies validators (rxq (fresh_world False full_success_replies))"
    by (simp add: q full_success_ok lengths_differ)
  have h2: "0 < ok_replies validators (rxq (fresh_world False current_corrupt_replies)) \<and>
            ok_replies validators (rxq (fresh_world False current_corrupt_replies))
              < length issued_sequence"
    by (simp add: q n lengths_differ)
  note full = main_command_sequence [of stale "fresh_world False full_success_replies"]
  note part = main_command_sequence [of stale "fresh_world False current_corrupt_replies"]
  have f1: "sent (trace (main stale (fresh_world False full_success_replies))) = issued_sequence"
    using full h1 by (simp add: q)
  have f2: "last (trace (main stale (fresh_world False full_success_replies))) = Exit EXIT_OK"
    using full h1 by simp
  have p1: "sent (trace (main stale (fresh_world False current_corrupt_replies)))
              = take 5 issued_sequence"
    using part by (simp add: q n)
  have p2: "last (trace (main stale (fresh_world False current_corrupt_replies))) = Exit EXIT_FAIL"
    using part h2 by simp
  show ?thesis
    using h1 h2 f1 f2 p1 p2 by (simp add: issued_sequence_def frames)
qed

subsection \<open>Failure at initialisation, and the first probe timing out\<close>






text \<open>
  Claim C1 against the code. When the first wait for a reply times out, \<^verbatim>\<open>main\<close> writes
  the probe and nothing else, closes the descriptor and prints the result lines: zeros for
  \<open>U\<close>, \<open>I\<close>, \<open>P\<close> and \<open>S\<close>, and for \<open>C\<close>, \<open>f\<close>, \<open>A\<close>, \<open>PR\<close>, \<open>PY\<close> and
  \<open>PT\<close> whatever the variables held before, since the branch does not assign them. With
  7 in every variable beforehand, twenty of the thirty-four printed values are 7.
\<close>

theorem first_probe_timeout_trace:
  "undumped (trace (main l (fresh_world dbg (TimedOut # rs)))) =
     [Write (bytes_of_TestCmd testCmd), Usleep TIME_OUT, Select CH_TIME_OUT, Close, Tcsetattr,
      PrintVals ''U (V):'' [0, 0, 0],
      PrintVals ''I (A):'' [0, 0, 0],
      PrintVals ''Cos(f):''
        [P3VS.p1 (loc_C l), P3VS.p2 (loc_C l), P3VS.p3 (loc_C l), P3VS.sum_p (loc_C l)],
      PrintVals ''F (Hz):'' [loc_f l],
      PrintVals ''A (deg):'' [P3V.p1 (loc_A l), P3V.p2 (loc_A l), P3V.p3 (loc_A l)],
      PrintVals ''P (W):'' [0, 0, 0, 0],
      PrintVals ''S (VA):'' [0, 0, 0, 0],
      PrintVals ''PR (KW):''
        [P3VS.p1 (loc_PR l), P3VS.p2 (loc_PR l), P3VS.p3 (loc_PR l), P3VS.sum_p (loc_PR l)],
      PrintVals ''PY (KW):''
        [P3VS.p1 (loc_PY l), P3VS.p2 (loc_PY l), P3VS.p3 (loc_PY l), P3VS.sum_p (loc_PY l)],
      PrintVals ''PT (KW):''
        [P3VS.p1 (loc_PT l), P3VS.p2 (loc_PT l), P3VS.p3 (loc_PT l), P3VS.sum_p (loc_PT l)],
      Exit EXIT_OK] \<and>
   printed (trace (main stale (fresh_world False [TimedOut]))) =
     [0, 0, 0, 0, 0, 0, 7, 7, 7, 7, 7, 7, 7, 7, 0, 0, 0, 0, 0, 0, 0, 0,
      7, 7, 7, 7, 7, 7, 7, 7, 7, 7, 7, 7] \<and>
   sent (trace (main stale (fresh_world False [TimedOut]))) = [[0x00, 0x00, 0x01, 0xB0]]"
  by (simp add: main_def main_switch_def checkChannel_def Let_def world_defs ResultCode_defs
      stale_def stale3_def stale4_def frames)


end
